theory Spec2Isabelle
  imports Main
begin

section \<open>NotificationManager: per-user SSE fan-out\<close>

text \<open>
  \<^verbatim>\<open>src/server/notification-manager.ts\<close>, class \<^verbatim>\<open>NotificationManager\<close>.
  The field \<^verbatim>\<open>connections: Map<string, SSEConnection[]>\<close> holds, per user id, a
  reference to a JavaScript array. The \<^verbatim>\<open>/notify\<close> branch keeps that reference in a
  local variable, the \<^verbatim>\<open>catch\<close> handlers splice the same array through the map, and the
  response reads \<^verbatim>\<open>connections.length\<close> afterwards. The arrays therefore live in an
  explicit store: the map sends a user id to an address, the store sends an address to
  the array's contents.

  A connection is identified by its writer handle (a fresh number per
  \<^verbatim>\<open>writable.getWriter()\<close>); the \<^verbatim>\<open>TextEncoder\<close> is stateless and left out.
\<close>

record SSEConnection =
  writer :: nat
  conn_userId :: string

record NotificationManager =
  connections :: "string \<rightharpoonup> nat"
  arrays :: "nat \<Rightarrow> SSEConnection list"
  next_ref :: nat

text \<open>The constructor: \<^verbatim>\<open>this.connections = new Map()\<close>.\<close>

definition nm_init :: NotificationManager where
  "nm_init = \<lparr>connections = Map.empty, arrays = (\<lambda>_. []), next_ref = 0\<rparr>"

text \<open>JavaScript truthiness of a \<^verbatim>\<open>string | null | undefined\<close> value.\<close>

fun truthy :: "string option \<Rightarrow> bool" where
  "truthy None = False"
| "truthy (Some s) = (s \<noteq> [])"

text \<open>The array a user's map entry points to; \<^verbatim>\<open>this.connections.get(u) || []\<close>.\<close>

definition registry :: "NotificationManager \<Rightarrow> string \<Rightarrow> SSEConnection list" where
  "registry st u = (case connections st u of None \<Rightarrow> [] | Some a \<Rightarrow> arrays st a)"

text \<open>
  The \<^verbatim>\<open>/subscribe\<close> branch up to the registration: a fresh writer, pushed on the user's
  array (a fresh array when the user has none), and the array stored under the user id.
\<close>

definition subscribe :: "string \<Rightarrow> NotificationManager \<Rightarrow> SSEConnection \<times> NotificationManager" where
  "subscribe userId st =
     (let connection = \<lparr>writer = next_ref st, conn_userId = userId\<rparr> in
      case connections st userId of
        Some a \<Rightarrow>
          (connection,
           st\<lparr>arrays := (arrays st)(a := arrays st a @ [connection]),
              next_ref := next_ref st + 1\<rparr>)
      | None \<Rightarrow>
          (let a = next_ref st + 1 in
           (connection,
            st\<lparr>connections := (connections st)(userId \<mapsto> a),
               arrays := (arrays st)(a := [connection]),
               next_ref := next_ref st + 2\<rparr>)))"

text \<open>
  The \<^verbatim>\<open>abort\<close> listener of a subscription: \<^verbatim>\<open>indexOf\<close> and \<^verbatim>\<open>splice\<close> remove the first
  occurrence of the connection, and an emptied array deletes the user's map entry.
\<close>

definition on_abort :: "string \<Rightarrow> SSEConnection \<Rightarrow> NotificationManager \<Rightarrow> NotificationManager" where
  "on_abort userId connection st =
     (case connections st userId of
        None \<Rightarrow> st
      | Some a \<Rightarrow>
          (let conns = remove1 connection (arrays st a);
               st1 = st\<lparr>arrays := (arrays st)(a := conns)\<rparr>
           in if length conns = 0
              then st1\<lparr>connections := (connections st1)(userId := None)\<rparr>
              else st1))"

text \<open>The SSE frame \<^verbatim>\<open>`data: ${JSON.stringify(data)}\n\n`\<close>; the argument is the JSON text.\<close>

definition sse_frame :: "string \<Rightarrow> string" where
  "sse_frame json = ''data: '' @ json @ [CHR 0x0A, CHR 0x0A]"

text \<open>
  The \<^verbatim>\<open>catch\<close> block of one failed write: look the target user's array up again and
  splice the failed connection out of it.
\<close>

definition drop_failed :: "string \<Rightarrow> SSEConnection \<Rightarrow> NotificationManager \<Rightarrow> NotificationManager" where
  "drop_failed targetUserId conn st =
     (case connections st targetUserId of
        None \<Rightarrow> st
      | Some a \<Rightarrow> st\<lparr>arrays := (arrays st)(a := remove1 conn (arrays st a))\<rparr>)"

text \<open>
  The \<^verbatim>\<open>/notify\<close> branch. \<^verbatim>\<open>connections.map(async ...)\<close> starts one write per element of
  the array as it is at the call; \<^verbatim>\<open>writer.write\<close> returns a promise, so a failure is
  only seen after the \<^verbatim>\<open>await\<close>, when every write has been started. \<open>broken w\<close> says
  that the write on writer \<open>w\<close> rejects. Each rejected write runs \<open>drop_failed\<close>, in
  array order. The result is the new state, the attempted writes
  \<open>(writer, frame, succeeded)\<close> in array order, and the \<^verbatim>\<open>sent\<close> field of the response:
  the length of the array the local variable refers to, read after \<^verbatim>\<open>Promise.all\<close>.
\<close>

definition notify ::
  "(nat \<Rightarrow> bool) \<Rightarrow> string \<Rightarrow> string \<Rightarrow> NotificationManager
    \<Rightarrow> NotificationManager \<times> (nat \<times> string \<times> bool) list \<times> nat" where
  "notify broken targetUserId json st =
     (case connections st targetUserId of
        None \<Rightarrow> (st, [], 0)
      | Some a \<Rightarrow>
          (let conns = arrays st a;
               message = sse_frame json;
               attempts = map (\<lambda>c. (writer c, message, \<not> broken (writer c))) conns;
               st' = fold (drop_failed targetUserId)
                       (filter (\<lambda>c. broken (writer c)) conns) st
           in (st', attempts, length (arrays st' a))))"

text \<open>The request as \<^verbatim>\<open>fetch\<close> reads it, and the responses it builds.\<close>

record nm_request =
  query_userId :: "string option"
  pathname :: string
  http_method :: string
  body_userId :: string
  body_data :: string

datatype nm_response =
    MissingUserId
  | EventStream SSEConnection
  | Notified nat
  | NotFound

definition nm_fetch ::
  "(nat \<Rightarrow> bool) \<Rightarrow> nm_request \<Rightarrow> NotificationManager
    \<Rightarrow> NotificationManager \<times> (nat \<times> string \<times> bool) list \<times> nm_response" where
  "nm_fetch broken req st =
     (if \<not> truthy (query_userId req) then (st, [], MissingUserId)
      else if pathname req = ''/subscribe'' then
        (case subscribe (the (query_userId req)) st of
           (connection, st') \<Rightarrow> (st', [], EventStream connection))
      else if pathname req = ''/notify'' \<and> http_method req = ''POST'' then
        (case notify broken (body_userId req) (body_data req) st of
           (st', attempts, sent) \<Rightarrow> (st', attempts, Notified sent))
      else (st, [], NotFound))"

text \<open>
  Well-formed registries: distinct users own distinct arrays, a writer is registered under
  at most one user, and every address and writer handle was handed out by the allocator.
  The constructor establishes it and \<open>subscribe\<close>, \<open>on_abort\<close> and \<open>notify\<close> keep it.
\<close>

definition wf_registry :: "NotificationManager \<Rightarrow> bool" where
  "wf_registry st =
     ((\<forall>u v a. connections st u = Some a \<and> connections st v = Some a \<longrightarrow> u = v)
      \<and> (\<forall>u a. connections st u = Some a \<longrightarrow> a < next_ref st)
      \<and> (\<forall>u c. c \<in> set (registry st u) \<longrightarrow> writer c < next_ref st)
      \<and> (\<forall>u v c d. c \<in> set (registry st u) \<and> d \<in> set (registry st v)
            \<and> writer c = writer d \<longrightarrow> u = v))"

section \<open>CollaborativeItinerary: real-time editing of one itinerary\<close>

text \<open>
  \<^verbatim>\<open>src/server/notification-manager.ts\<close>, class \<^verbatim>\<open>CollaborativeItinerary\<close>. The document is
  typed as the interfaces \<^verbatim>\<open>ItineraryData\<close>, \<^verbatim>\<open>Day\<close> and \<^verbatim>\<open>Activity\<close> of the same file
  declare it. The code reads \<^verbatim>\<open>id\<close>, \<^verbatim>\<open>votes\<close>, \<^verbatim>\<open>dayNumber\<close>, \<^verbatim>\<open>activities\<close> and
  \<^verbatim>\<open>days\<close>; every other property of an object is kept as a pair of its name and its JSON
  text, in property order.
\<close>

datatype vote = Up | Down | Neutral

record Activity =
  act_id :: string
  act_props :: "(string \<times> string) list"
  act_votes :: "(string \<times> vote) list option"

record Day =
  day_date :: string
  dayNumber :: int
  activities :: "Activity list"

record Itinerary =
  it_props :: "(string \<times> string) list"
  days :: "Day list option"

text \<open>
  Assignment \<^verbatim>\<open>o[k] = v\<close> on a JavaScript object: an existing property keeps its place, a
  new one goes last. The spread \<^verbatim>\<open>{...a, ...b}\<close> assigns the properties of \<open>b\<close> in order.
\<close>

fun obj_set :: "string \<Rightarrow> 'v \<Rightarrow> (string \<times> 'v) list \<Rightarrow> (string \<times> 'v) list" where
  "obj_set k v [] = [(k, v)]"
| "obj_set k v (p # ps) = (if fst p = k then (k, v) # ps else p # obj_set k v ps)"

definition spread :: "(string \<times> 'v) list \<Rightarrow> (string \<times> 'v) list \<Rightarrow> (string \<times> 'v) list" where
  "spread a b = fold (\<lambda>p acc. obj_set (fst p) (snd p) acc) b a"

text \<open>
  The payloads of the four edit actions. In \<^verbatim>\<open>updates\<close> and in the itinerary patch a
  property that the code reads is present (\<open>Some\<close>) or absent (\<open>None\<close>).
\<close>

record ActivityUpdates =
  upd_id :: "string option"
  upd_props :: "(string \<times> string) list"
  upd_votes :: "(string \<times> vote) list option"

record ItineraryPatch =
  patch_props :: "(string \<times> string) list"
  patch_days :: "Day list option option"

datatype EditData =
    ActivityAdd int Activity
  | ActivityUpdate string ActivityUpdates
  | ActivityDelete string
  | ItineraryUpdate ItineraryPatch

record EditAction =
  action_data :: EditData
  action_userId :: string
  action_timestamp :: nat

text \<open>\<^verbatim>\<open>Array.prototype.findIndex\<close>; \<open>None\<close> is the result \<^verbatim>\<open>-1\<close>.\<close>

fun findIndex :: "('a \<Rightarrow> bool) \<Rightarrow> 'a list \<Rightarrow> nat option" where
  "findIndex P [] = None"
| "findIndex P (x # xs) = (if P x then Some 0 else map_option Suc (findIndex P xs))"

text \<open>
  \<^verbatim>\<open>addActivity\<close>: \<^verbatim>\<open>days.find(d => d.dayNumber === data.dayNumber)\<close> and a push on the
  day found.
\<close>

definition addActivity :: "int \<Rightarrow> Activity \<Rightarrow> Itinerary option \<Rightarrow> Itinerary option" where
  "addActivity dayNo activity doc =
     (case doc of
        None \<Rightarrow> doc
      | Some it \<Rightarrow>
          (case days it of
             None \<Rightarrow> doc
           | Some ds \<Rightarrow>
               (case findIndex (\<lambda>d. dayNumber d = dayNo) ds of
                  None \<Rightarrow> doc
                | Some i \<Rightarrow>
                    Some (it\<lparr>days := Some (ds[i := (ds ! i)\<lparr>activities :=
                                   activities (ds ! i) @ [activity]\<rparr>])\<rparr>))))"

text \<open>\<^verbatim>\<open>{ ...day.activities[activityIndex], ...data.updates }\<close>.\<close>

definition merge_activity :: "Activity \<Rightarrow> ActivityUpdates \<Rightarrow> Activity" where
  "merge_activity a u =
     \<lparr>act_id = (case upd_id u of None \<Rightarrow> act_id a | Some i \<Rightarrow> i),
      act_props = spread (act_props a) (upd_props u),
      act_votes = (case upd_votes u of None \<Rightarrow> act_votes a | Some v \<Rightarrow> Some v)\<rparr>"

text \<open>The loops of \<^verbatim>\<open>updateActivity\<close> and \<^verbatim>\<open>deleteActivity\<close>, which \<^verbatim>\<open>break\<close> at the first day
  that holds a matching activity.\<close>

fun updateActivity_days :: "string \<Rightarrow> ActivityUpdates \<Rightarrow> Day list \<Rightarrow> Day list" where
  "updateActivity_days activityId updates [] = []"
| "updateActivity_days activityId updates (d # ds) =
     (case findIndex (\<lambda>a. act_id a = activityId) (activities d) of
        Some i \<Rightarrow>
          d\<lparr>activities := (activities d)[i := merge_activity (activities d ! i) updates]\<rparr> # ds
      | None \<Rightarrow> d # updateActivity_days activityId updates ds)"

definition updateActivity :: "string \<Rightarrow> ActivityUpdates \<Rightarrow> Itinerary option \<Rightarrow> Itinerary option" where
  "updateActivity activityId updates doc =
     (case doc of
        None \<Rightarrow> doc
      | Some it \<Rightarrow>
          (case days it of
             None \<Rightarrow> doc
           | Some ds \<Rightarrow> Some (it\<lparr>days := Some (updateActivity_days activityId updates ds)\<rparr>)))"

fun deleteActivity_days :: "string \<Rightarrow> Day list \<Rightarrow> Day list" where
  "deleteActivity_days activityId [] = []"
| "deleteActivity_days activityId (d # ds) =
     (case findIndex (\<lambda>a. act_id a = activityId) (activities d) of
        Some i \<Rightarrow> d\<lparr>activities := take i (activities d) @ drop (Suc i) (activities d)\<rparr> # ds
      | None \<Rightarrow> d # deleteActivity_days activityId ds)"

definition deleteActivity :: "string \<Rightarrow> Itinerary option \<Rightarrow> Itinerary option" where
  "deleteActivity activityId doc =
     (case doc of
        None \<Rightarrow> doc
      | Some it \<Rightarrow>
          (case days it of
             None \<Rightarrow> doc
           | Some ds \<Rightarrow> Some (it\<lparr>days := Some (deleteActivity_days activityId ds)\<rparr>)))"

text \<open>\<^verbatim>\<open>updateItinerary\<close>: \<^verbatim>\<open>{ ...this.itineraryData, ...data }\<close>.\<close>

definition updateItinerary :: "ItineraryPatch \<Rightarrow> Itinerary option \<Rightarrow> Itinerary option" where
  "updateItinerary patch doc =
     (case doc of
        None \<Rightarrow> doc
      | Some it \<Rightarrow>
          Some \<lparr>it_props = spread (it_props it) (patch_props patch),
                days = (case patch_days patch of None \<Rightarrow> days it | Some d \<Rightarrow> d)\<rparr>)"

text \<open>The \<^verbatim>\<open>switch (action.type)\<close> of \<^verbatim>\<open>handleEdit\<close>.\<close>

fun apply_edit :: "EditData \<Rightarrow> Itinerary option \<Rightarrow> Itinerary option" where
  "apply_edit (ActivityAdd dayNo activity) doc = addActivity dayNo activity doc"
| "apply_edit (ActivityUpdate activityId updates) doc = updateActivity activityId updates doc"
| "apply_edit (ActivityDelete activityId) doc = deleteActivity activityId doc"
| "apply_edit (ItineraryUpdate patch) doc = updateItinerary patch doc"

subsection \<open>The actor's state and its effects\<close>

record User =
  user_id :: string
  user_name :: string
  user_email :: string
  user_color :: string

record CollaboratorPresence =
  p_userId :: string
  p_userName :: string
  p_color :: string
  lastSeen :: nat
  cursor :: "(string \<times> int) option"

datatype ServerMessage =
    EditBroadcast EditAction string string string
  | CursorUpdate string "(string \<times> int) option"
  | TypingBroadcast string string string
  | VoteUpdate string string vote nat nat nat
  | ChatBroadcast string string string string nat
  | UserLeft string

text \<open>
  What the actor does to the outside, in the order it does it: a successful
  \<^verbatim>\<open>ctx.storage.put("itineraryData", v)\<close> and a successful \<^verbatim>\<open>ws.send\<close> on a socket.
\<close>

datatype effect =
    StoragePut "Itinerary option"
  | Send nat ServerMessage

text \<open>
  An entry of \<^verbatim>\<open>editHistory\<close> is the action object that \<^verbatim>\<open>handleEdit\<close> pushed. Its \<^verbatim>\<open>type\<close>,
  \<^verbatim>\<open>userId\<close> and \<^verbatim>\<open>timestamp\<close> are primitive values, fixed at the push. Its \<^verbatim>\<open>data\<close> is a
  reference into objects that the document goes on to share: \<^verbatim>\<open>addActivity\<close> pushes
  \<^verbatim>\<open>data.activity\<close> itself into the day, the spreads of \<^verbatim>\<open>updateActivity\<close> and
  \<^verbatim>\<open>updateItinerary\<close> copy the references \<^verbatim>\<open>data.updates.votes\<close> and \<^verbatim>\<open>data.days\<close>. A later
  edit or vote that writes those objects in place changes what an earlier entry shows. The
  model therefore records of each entry the fixed part only, in order, and says nothing on
  the contents of its \<^verbatim>\<open>data\<close>. The document itself is a tree that nothing else writes to,
  and the messages sent and the value stored are serialised at the call, so these are
  values.
\<close>

datatype ActionType = TActivityAdd | TActivityUpdate | TActivityDelete | TItineraryUpdate

fun action_type :: "EditData \<Rightarrow> ActionType" where
  "action_type (ActivityAdd dayNo activity) = TActivityAdd"
| "action_type (ActivityUpdate activityId updates) = TActivityUpdate"
| "action_type (ActivityDelete activityId) = TActivityDelete"
| "action_type (ItineraryUpdate patch) = TItineraryUpdate"

record HistoryEntry =
  entry_type :: ActionType
  entry_userId :: string
  entry_timestamp :: nat

definition recorded :: "EditAction \<Rightarrow> HistoryEntry" where
  "recorded action =
     \<lparr>entry_type = action_type (action_data action), entry_userId = action_userId action,
      entry_timestamp = action_timestamp action\<rparr>"

text \<open>
  \<open>sessions\<close> is the \<^verbatim>\<open>Map<WebSocket, User>\<close> in insertion order, a socket being a number;
  \<open>storage\<close> is the durable value under the key \<^verbatim>\<open>itineraryData\<close>.
\<close>

record CollaborativeItinerary =
  sessions :: "(nat \<times> User) list"
  itineraryData :: "Itinerary option"
  collaborators :: "(string \<times> CollaboratorPresence) list"
  editHistory :: "HistoryEntry list"
  storage :: "Itinerary option"
  effects :: "effect list"

text \<open>
  What one event finds outside the actor: \<^verbatim>\<open>Date.now()\<close>, whether the storage write
  rejects, which sockets have \<^verbatim>\<open>readyState === WebSocket.OPEN\<close>, and on which of them
  \<^verbatim>\<open>send\<close> throws.
\<close>

record Env =
  env_now :: nat
  put_fails :: bool
  ready_open :: "nat \<Rightarrow> bool"
  send_throws :: "nat \<Rightarrow> bool"

datatype outcome = Completed | Rejected

text \<open>The constructor: the stored document, when there is one, becomes the in-memory one.\<close>

definition collab_init :: "Itinerary option \<Rightarrow> CollaborativeItinerary" where
  "collab_init stored =
     \<lparr>sessions = [], itineraryData = stored, collaborators = [], editHistory = [],
      storage = stored, effects = []\<rparr>"

text \<open>\<^verbatim>\<open>broadcast(message, exclude)\<close>: one step of the loop over the sessions, and the loop.\<close>

definition broadcast_to ::
  "Env \<Rightarrow> ServerMessage \<Rightarrow> nat option \<Rightarrow> nat \<Rightarrow> CollaborativeItinerary \<Rightarrow> CollaborativeItinerary" where
  "broadcast_to env message exclude ws st =
     (if Some ws \<noteq> exclude \<and> ready_open env ws then
        (if send_throws env ws
         then st\<lparr>sessions := filter (\<lambda>p. fst p \<noteq> ws) (sessions st)\<rparr>
         else st\<lparr>effects := effects st @ [Send ws message]\<rparr>)
      else st)"

definition broadcast ::
  "Env \<Rightarrow> ServerMessage \<Rightarrow> nat option \<Rightarrow> CollaborativeItinerary \<Rightarrow> CollaborativeItinerary" where
  "broadcast env message exclude st =
     fold (broadcast_to env message exclude) (map fst (sessions st)) st"

text \<open>
  \<^verbatim>\<open>handleEdit\<close>. The statements run in the source's order: stamp the action, apply it,
  \<^verbatim>\<open>await this.ctx.storage.put(...)\<close>, push on the history and keep its last 100 entries,
  broadcast. A rejected \<^verbatim>\<open>put\<close> throws out of \<^verbatim>\<open>handleEdit\<close> at that statement.
\<close>

definition handleEdit ::
  "Env \<Rightarrow> User \<Rightarrow> EditAction \<Rightarrow> CollaborativeItinerary \<Rightarrow> outcome \<times> CollaborativeItinerary" where
  "handleEdit env user action0 st =
     (let action = action0\<lparr>action_userId := user_id user, action_timestamp := env_now env\<rparr>;
          st1 = st\<lparr>itineraryData := apply_edit (action_data action) (itineraryData st)\<rparr>
      in if put_fails env then (Rejected, st1)
         else
           (let st2 = st1\<lparr>storage := itineraryData st1,
                           effects := effects st1 @ [StoragePut (itineraryData st1)]\<rparr>;
                pushed = editHistory st2 @ [recorded action];
                st3 = st2\<lparr>editHistory :=
                            (if length pushed > 100 then drop (length pushed - 100) pushed
                             else pushed)\<rparr>
            in (Completed,
                broadcast env
                  (EditBroadcast action (user_id user) (user_name user) (user_color user))
                  None st3)))"







text \<open>
  The messages of a client, \<^verbatim>\<open>handleMessage\<close>, which drops a message from a socket with no
  session, and \<^verbatim>\<open>webSocketMessage\<close>, whose \<^verbatim>\<open>try/catch\<close> logs what \<^verbatim>\<open>JSON.parse\<close> or a
  handler throws; \<open>None\<close> is a text that does not parse.
\<close>

datatype ClientMessage =
    Edit EditAction
  | Cursor "(string \<times> int) option"
  | Typing string
  | Vote string vote
  | Chat string





section \<open>Chat: the conversation actor\<close>

text \<open>
  \<^verbatim>\<open>src/unnamed/part_004\<close>, class \<^verbatim>\<open>Chat\<close>, and \<^verbatim>\<open>validateToken\<close> of
  \<^verbatim>\<open>src/server/middleware/auth.middleware.ts\<close>. The D1 database is the tables the actor
  reads and writes (\<^verbatim>\<open>migrations/\<close>), a clock for \<^verbatim>\<open>Date.now()\<close> and \<^verbatim>\<open>datetime('now')\<close>,
  the statements run so far, and what the next statements meet: each statement takes the
  head of \<open>faults\<close>, and \<open>True\<close> there makes it reject (an unreachable database, a violated
  constraint); an empty list means that every statement succeeds.
\<close>

record MessageRow =
  msg_conversation_id :: string
  msg_role :: string
  msg_content :: string
  msg_created_at :: nat

record ConversationRow =
  conv_id :: string
  conv_user_id :: string
  conv_title :: string

record SessionRow =
  sess_token :: string
  sess_user_id :: string
  sess_expires_at :: nat
  sess_created_at :: nat

record UserRow =
  usr_id :: string
  usr_email :: string
  usr_name :: string

datatype d1_stmt =
    SelectMessages string
  | DeleteMessages string
  | InsertMessage string string string
  | SelectSessionByToken string
  | SelectConversationUser string
  | SelectLatestSession string
  | SelectConversationId string
  | InsertConversation string string string
  | SelectConversationTitle string
  | SelectUserConversations string

record D1 =
  chat_messages :: "MessageRow list"
  chat_conversations :: "ConversationRow list"
  session_tbl :: "SessionRow list"
  user_tbl :: "UserRow list"
  clock :: nat
  faults :: "bool list"
  statements :: "d1_stmt list"

datatype 'a d1_result = Threw | Result 'a

text \<open>Running one statement: it is recorded, and it takes the next fault.\<close>

definition d1_run :: "d1_stmt \<Rightarrow> D1 \<Rightarrow> bool \<times> D1" where
  "d1_run s db =
     (case faults db of
        [] \<Rightarrow> (False, db\<lparr>statements := statements db @ [s]\<rparr>)
      | f # fs \<Rightarrow> (f, db\<lparr>faults := fs, statements := statements db @ [s]\<rparr>))"

text \<open>The rows \<^verbatim>\<open>SELECT content FROM chat_messages WHERE conversation_id = ? ORDER BY
  created_at ASC\<close> returns; rows of one creation time keep their insertion order.\<close>

definition messages_of :: "string \<Rightarrow> D1 \<Rightarrow> MessageRow list" where
  "messages_of conversationId db =
     sort_key msg_created_at
       (filter (\<lambda>r. msg_conversation_id r = conversationId) (chat_messages db))"

definition select_messages :: "string \<Rightarrow> D1 \<Rightarrow> string list d1_result \<times> D1" where
  "select_messages conversationId db =
     (case d1_run (SelectMessages conversationId) db of
        (True, db') \<Rightarrow> (Threw, db')
      | (False, db') \<Rightarrow> (Result (map msg_content (messages_of conversationId db')), db'))"

text \<open>\<^verbatim>\<open>DELETE FROM chat_messages WHERE conversation_id = ?\<close>; \<open>True\<close> says that it threw.\<close>

definition delete_messages :: "string \<Rightarrow> D1 \<Rightarrow> bool \<times> D1" where
  "delete_messages conversationId db =
     (case d1_run (DeleteMessages conversationId) db of
        (True, db') \<Rightarrow> (True, db')
      | (False, db') \<Rightarrow>
          (False, db'\<lparr>chat_messages :=
                        filter (\<lambda>r. msg_conversation_id r \<noteq> conversationId) (chat_messages db')\<rparr>))"

text \<open>\<^verbatim>\<open>INSERT INTO chat_messages (conversation_id, role, content, created_at) VALUES
  (?, ?, ?, datetime('now'))\<close>.\<close>

definition insert_message :: "string \<Rightarrow> string \<Rightarrow> string \<Rightarrow> D1 \<Rightarrow> bool \<times> D1" where
  "insert_message conversationId role content db =
     (case d1_run (InsertMessage conversationId role content) db of
        (True, db') \<Rightarrow> (True, db')
      | (False, db') \<Rightarrow>
          (False, db'\<lparr>chat_messages := chat_messages db' @
                        [\<lparr>msg_conversation_id = conversationId, msg_role = role,
                          msg_content = content, msg_created_at = clock db'\<rparr>]\<rparr>))"

record AuthUser =
  au_userId :: string
  au_email :: string
  au_name :: string

text \<open>The rows of \<^verbatim>\<open>session s JOIN user u ON s.user_id = u.id\<close> with an expiry after now.\<close>

definition live_sessions :: "D1 \<Rightarrow> (SessionRow \<times> UserRow) list" where
  "live_sessions db =
     filter (\<lambda>r. sess_user_id (fst r) = usr_id (snd r) \<and> sess_expires_at (fst r) > clock db)
       (List.product (session_tbl db) (user_tbl db))"

text \<open>\<^verbatim>\<open>validateToken\<close>: the first joined row with that token, or \<^verbatim>\<open>null\<close>.\<close>

definition token_user :: "D1 \<Rightarrow> string \<Rightarrow> AuthUser option" where
  "token_user db token =
     (case filter (\<lambda>r. sess_token (fst r) = token) (live_sessions db) of
        [] \<Rightarrow> None
      | r # _ \<Rightarrow>
          Some \<lparr>au_userId = usr_id (snd r), au_email = usr_email (snd r),
                au_name = usr_name (snd r)\<rparr>)"

definition validateToken :: "D1 \<Rightarrow> string \<Rightarrow> AuthUser option d1_result \<times> D1" where
  "validateToken db token =
     (case d1_run (SelectSessionByToken token) db of
        (True, db') \<Rightarrow> (Threw, db')
      | (False, db') \<Rightarrow> (Result (token_user db' token), db'))"

text \<open>\<^verbatim>\<open>SELECT ... FROM chat_conversations WHERE id = ?\<close> with \<^verbatim>\<open>first()\<close>; the three queries
  of this shape differ in the column they read, which the first argument records.\<close>

definition conversation_row :: "D1 \<Rightarrow> string \<Rightarrow> ConversationRow option" where
  "conversation_row db conversationId =
     (case filter (\<lambda>c. conv_id c = conversationId) (chat_conversations db) of
        [] \<Rightarrow> None
      | c # _ \<Rightarrow> Some c)"

definition select_conversation :: "d1_stmt \<Rightarrow> string \<Rightarrow> D1 \<Rightarrow> ConversationRow option d1_result \<times> D1" where
  "select_conversation stmt conversationId db =
     (case d1_run stmt db of
        (True, db') \<Rightarrow> (Threw, db')
      | (False, db') \<Rightarrow> (Result (conversation_row db' conversationId), db'))"

text \<open>The session query of \<^verbatim>\<open>onChatMessage\<close>: \<^verbatim>\<open>WHERE s.user_id = ? AND s.expires_at > ? ORDER
  BY s.created_at DESC LIMIT 1\<close>.\<close>

definition latest_session :: "D1 \<Rightarrow> string \<Rightarrow> (SessionRow \<times> UserRow) option" where
  "latest_session db userId =
     (case rev (sort_key (\<lambda>r. sess_created_at (fst r))
                  (filter (\<lambda>r. sess_user_id (fst r) = userId) (live_sessions db))) of
        [] \<Rightarrow> None
      | r # _ \<Rightarrow> Some r)"

definition select_latest_session ::
  "string \<Rightarrow> D1 \<Rightarrow> (SessionRow \<times> UserRow) option d1_result \<times> D1" where
  "select_latest_session userId db =
     (case d1_run (SelectLatestSession userId) db of
        (True, db') \<Rightarrow> (Threw, db')
      | (False, db') \<Rightarrow> (Result (latest_session db' userId), db'))"

text \<open>\<^verbatim>\<open>INSERT INTO chat_conversations (id, user_id, title) VALUES (?, ?, ?)\<close>.\<close>

definition insert_conversation :: "string \<Rightarrow> string \<Rightarrow> string \<Rightarrow> D1 \<Rightarrow> bool \<times> D1" where
  "insert_conversation conversationId userId title db =
     (case d1_run (InsertConversation conversationId userId title) db of
        (True, db') \<Rightarrow> (True, db')
      | (False, db') \<Rightarrow>
          (False, db'\<lparr>chat_conversations := chat_conversations db' @
                        [\<lparr>conv_id = conversationId, conv_user_id = userId,
                          conv_title = title\<rparr>]\<rparr>))"

subsection \<open>The actor\<close>

text \<open>
  A message of the log has a role; the rest of it (id, parts) is kept as one text.
  \<^verbatim>\<open>JSON.stringify\<close> and \<^verbatim>\<open>JSON.parse\<close> on messages are parameters of the model; \<open>parse\<close>
  gives \<open>None\<close> where \<^verbatim>\<open>JSON.parse\<close> throws.
\<close>

record ChatMessage =
  role :: string
  body :: string

record json_codec =
  stringify :: "ChatMessage \<Rightarrow> string"
  parse :: "string \<Rightarrow> ChatMessage option"

text \<open>
  The actor: \<^verbatim>\<open>this.messages\<close>, the three keys of \<^verbatim>\<open>this.ctx.storage\<close>, and what it has asked
  of others: the users for whom it posted \<^verbatim>\<open>/notify\<close> to the NotificationManager, and the
  title generations it started in the background.
\<close>

record Chat =
  messages :: "ChatMessage list"
  stored_conversationId :: "string option"
  stored_userToken :: "string option"
  stored_userId :: "string option"
  notify_posts :: "string list"
  title_jobs :: "(string \<times> string) list"

text \<open>The constructor empties \<^verbatim>\<open>this.messages\<close>; the storage is what an earlier instance left.\<close>

definition chat_init :: "string option \<Rightarrow> string option \<Rightarrow> string option \<Rightarrow> Chat" where
  "chat_init conversationId userToken userId =
     \<lparr>messages = [], stored_conversationId = conversationId, stored_userToken = userToken,
      stored_userId = userId, notify_posts = [], title_jobs = []\<rparr>"

record ChatRequest =
  req_token :: "string option"
  req_authorization :: "string option"
  req_pk :: "string option"
  req_conversationId :: "string option"
  req_pathname :: string

text \<open>
  The errors the two methods throw: \<^verbatim>\<open>No conversationId available\<close>, \<^verbatim>\<open>Unauthorized: No
  valid session found\<close>, \<^verbatim>\<open>Unauthorized: Session expired or not found\<close>, and whatever a
  rejected D1 statement raises outside a \<^verbatim>\<open>try\<close>. The answers of \<^verbatim>\<open>onRequest\<close>: the empty
  array, or the answer of \<^verbatim>\<open>super.onRequest\<close>.
\<close>

datatype chat_error =
    NoConversationId
  | UnauthorizedNoSession
  | UnauthorizedExpired
  | D1Error

datatype 'a result = Returned 'a | Thrown chat_error

datatype chat_response = EmptyMessages | SuperOnRequest

text \<open>The token of a request: the query parameter, else a bearer header, else \<^verbatim>\<open>_pk\<close>.\<close>

definition request_token :: "ChatRequest \<Rightarrow> string option" where
  "request_token req =
     (if truthy (req_token req) then req_token req
      else (case req_authorization req of
              Some h \<Rightarrow>
                if take 7 h = ''Bearer '' then Some (drop 7 h)
                else if truthy (req_pk req) then req_pk req else None
            | None \<Rightarrow> if truthy (req_pk req) then req_pk req else None))"

text \<open>\<^verbatim>\<open>String.prototype.includes\<close>.\<close>

fun str_includes :: "string \<Rightarrow> string \<Rightarrow> bool" where
  "str_includes [] sub = (sub = [])"
| "str_includes (c # cs) sub = (take (length sub) (c # cs) = sub \<or> str_includes cs sub)"

text \<open>\<^verbatim>\<open>dbMessages.results.map(row => JSON.parse(row.content))\<close>: it throws at the first row
  that does not parse.\<close>

fun parse_rows :: "json_codec \<Rightarrow> string list \<Rightarrow> ChatMessage list option" where
  "parse_rows codec [] = Some []"
| "parse_rows codec (r # rs) =
     (case parse codec r of
        None \<Rightarrow> None
      | Some m \<Rightarrow> map_option (\<lambda>ms. m # ms) (parse_rows codec rs))"

text \<open>
  The reload of \<^verbatim>\<open>onRequest\<close>: the log is emptied, then filled from the rows of the
  conversation; the \<^verbatim>\<open>catch\<close> around the query and the parsing only logs the error.
\<close>

definition reload_messages :: "json_codec \<Rightarrow> string \<Rightarrow> Chat \<times> D1 \<Rightarrow> Chat \<times> D1" where
  "reload_messages codec conversationId s =
     (let st = (fst s)\<lparr>messages := []\<rparr> in
      case select_messages conversationId (snd s) of
        (Threw, db') \<Rightarrow> (st, db')
      | (Result rows, db') \<Rightarrow>
          (if length rows > 0 then
             (case parse_rows codec rows of
                None \<Rightarrow> (st, db')
              | Some ms \<Rightarrow> (st\<lparr>messages := ms\<rparr>, db'))
           else (st, db')))"

definition needsReload :: "string \<Rightarrow> Chat \<Rightarrow> bool" where
  "needsReload conversationId st =
     (\<not> truthy (stored_conversationId st)
      \<or> Some conversationId \<noteq> stored_conversationId st
      \<or> length (messages st) = 0)"

text \<open>
  \<^verbatim>\<open>onRequest\<close>, up to the hand-over to \<^verbatim>\<open>super.onRequest\<close>, block by block. First the
  \<^verbatim>\<open>if (conversationId)\<close> that reloads when \<^verbatim>\<open>needsReload\<close>, and the one that stores the
  id.
\<close>

definition bind_conversation :: "json_codec \<Rightarrow> ChatRequest \<Rightarrow> Chat \<times> D1 \<Rightarrow> Chat \<times> D1" where
  "bind_conversation codec req s =
     (let conversationId = req_conversationId req in
      if truthy conversationId then
        (let s1 = (if needsReload (the conversationId) (fst s)
                   then reload_messages codec (the conversationId) s
                   else s)
         in ((fst s1)\<lparr>stored_conversationId := conversationId\<rparr>, snd s1))
      else s)"

text \<open>
  Then the \<^verbatim>\<open>if (token)\<close>: the token is stored, and the user id when the token validates.
  \<^verbatim>\<open>validateToken\<close> is called outside any \<^verbatim>\<open>try\<close>, so a failing query there throws out of
  \<^verbatim>\<open>onRequest\<close>.
\<close>

definition save_token :: "ChatRequest \<Rightarrow> Chat \<times> D1 \<Rightarrow> unit result \<times> Chat \<times> D1" where
  "save_token req s =
     (let token = request_token req in
      if truthy token then
        (let st = (fst s)\<lparr>stored_userToken := token\<rparr> in
         case validateToken (snd s) (the token) of
           (Threw, db') \<Rightarrow> (Thrown D1Error, st, db')
         | (Result (Some user), db') \<Rightarrow>
             (Returned (), st\<lparr>stored_userId := Some (au_userId user)\<rparr>, db')
         | (Result None, db') \<Rightarrow> (Returned (), st, db'))
      else (Returned (), s))"

text \<open>Last the answer: an empty array for \<^verbatim>\<open>/get-messages\<close> on an empty log, else whatever
  \<^verbatim>\<open>super.onRequest(request)\<close> answers.\<close>

definition respond :: "ChatRequest \<Rightarrow> Chat \<Rightarrow> chat_response" where
  "respond req st =
     (if str_includes (req_pathname req) ''/get-messages'' \<and> length (messages st) = 0
      then EmptyMessages else SuperOnRequest)"

definition onRequest ::
  "json_codec \<Rightarrow> ChatRequest \<Rightarrow> Chat \<times> D1 \<Rightarrow> chat_response result \<times> Chat \<times> D1" where
  "onRequest codec req s =
     (case save_token req (bind_conversation codec req s) of
        (Thrown e, st, db) \<Rightarrow> (Thrown e, st, db)
      | (Returned u, st, db) \<Rightarrow> (Returned (respond req st), st, db))"

text \<open>
  \<^verbatim>\<open>notifyConversationUpdate\<close>: the query for the user's conversations, then the post to the
  user's NotificationManager, all inside a \<^verbatim>\<open>try\<close> whose \<^verbatim>\<open>catch\<close> logs.
\<close>

definition notifyConversationUpdate :: "string \<Rightarrow> Chat \<times> D1 \<Rightarrow> Chat \<times> D1" where
  "notifyConversationUpdate userId s =
     (case d1_run (SelectUserConversations userId) (snd s) of
        (True, db') \<Rightarrow> (fst s, db')
      | (False, db') \<Rightarrow> ((fst s)\<lparr>notify_posts := notify_posts (fst s) @ [userId]\<rparr>, db'))"

text \<open>
  \<^verbatim>\<open>onChatMessage\<close>, from its first statement to the creation of the conversation record:
  the identity of the turn. What follows (tools, the model call, the stream) is outside the
  model; its \<^verbatim>\<open>wrappedOnFinish\<close> callback is below. The blocks of the source, in order; the
  value each passes on is the local variable \<^verbatim>\<open>userId\<close>.

  \<^verbatim>\<open>if (!userId && storedToken)\<close>: the stored token is validated.
\<close>

definition userId_from_token :: "Chat \<times> D1 \<Rightarrow> string option result \<times> Chat \<times> D1" where
  "userId_from_token s =
     (let st = fst s in
      if \<not> truthy (stored_userId st) \<and> truthy (stored_userToken st) then
        (case validateToken (snd s) (the (stored_userToken st)) of
           (Threw, db') \<Rightarrow> (Thrown D1Error, st, db')
         | (Result (Some user), db') \<Rightarrow>
             (Returned (Some (au_userId user)),
              st\<lparr>stored_userId := Some (au_userId user)\<rparr>, db')
         | (Result None, db') \<Rightarrow> (Returned (stored_userId st), st, db'))
      else (Returned (stored_userId st), s))"

text \<open>\<^verbatim>\<open>if (!userId)\<close>: the user of the conversation record, or the first unauthorized
  error.\<close>

definition userId_from_conversation ::
  "string \<Rightarrow> string option \<Rightarrow> Chat \<times> D1 \<Rightarrow> string option result \<times> Chat \<times> D1" where
  "userId_from_conversation conversationId userId s =
     (if \<not> truthy userId then
        (case select_conversation (SelectConversationUser conversationId) conversationId (snd s) of
           (Threw, db') \<Rightarrow> (Thrown D1Error, fst s, db')
         | (Result conversation, db') \<Rightarrow>
             (if truthy (map_option conv_user_id conversation)
              then (Returned (map_option conv_user_id conversation),
                    (fst s)\<lparr>stored_userId := map_option conv_user_id conversation\<rparr>, db')
              else (Thrown UnauthorizedNoSession, fst s, db')))
      else (Returned userId, s))"

text \<open>The session query, the second unauthorized error, the \<^verbatim>\<open>user\<close> of the turn, and the
  refresh of the stored token (compared with the token read at the start).\<close>

definition session_user ::
  "string option \<Rightarrow> string \<Rightarrow> Chat \<times> D1 \<Rightarrow> AuthUser result \<times> Chat \<times> D1" where
  "session_user storedToken userId s =
     (case select_latest_session userId (snd s) of
        (Threw, db') \<Rightarrow> (Thrown D1Error, fst s, db')
      | (Result None, db') \<Rightarrow> (Thrown UnauthorizedExpired, fst s, db')
      | (Result (Some validSession), db') \<Rightarrow>
          (Returned \<lparr>au_userId = usr_id (snd validSession),
                     au_email = usr_email (snd validSession),
                     au_name = usr_name (snd validSession)\<rparr>,
           (if storedToken \<noteq> Some (sess_token (fst validSession))
            then (fst s)\<lparr>stored_userToken := Some (sess_token (fst validSession))\<rparr>
            else fst s),
           db'))"

text \<open>The conversation record is created when there is none, and the user's streams are
  told.\<close>

definition ensure_conversation ::
  "string \<Rightarrow> string \<Rightarrow> AuthUser \<Rightarrow> Chat \<times> D1 \<Rightarrow> AuthUser result \<times> Chat \<times> D1" where
  "ensure_conversation conversationId userId user s =
     (case select_conversation (SelectConversationId conversationId) conversationId (snd s) of
        (Threw, db') \<Rightarrow> (Thrown D1Error, fst s, db')
      | (Result (Some existingConv), db') \<Rightarrow> (Returned user, fst s, db')
      | (Result None, db') \<Rightarrow>
          (case insert_conversation conversationId (au_userId user) ''New conversation'' db' of
             (True, db'') \<Rightarrow> (Thrown D1Error, fst s, db'')
           | (False, db'') \<Rightarrow>
               (case notifyConversationUpdate userId (fst s, db'') of
                  (st', db3) \<Rightarrow> (Returned user, st', db3))))"

text \<open>Sequencing: a throw ends the method with the state as it is then.\<close>

definition and_then ::
  "'a result \<times> Chat \<times> D1 \<Rightarrow> ('a \<Rightarrow> Chat \<times> D1 \<Rightarrow> 'b result \<times> Chat \<times> D1)
    \<Rightarrow> 'b result \<times> Chat \<times> D1" where
  "and_then r f =
     (case r of
        (Thrown e, s) \<Rightarrow> (Thrown e, s)
      | (Returned x, s) \<Rightarrow> f x s)"

definition onChatMessage :: "Chat \<times> D1 \<Rightarrow> AuthUser result \<times> Chat \<times> D1" where
  "onChatMessage s =
     (let storedToken = stored_userToken (fst s);
          conversationId = stored_conversationId (fst s)
      in if \<not> truthy conversationId then (Thrown NoConversationId, s)
         else
           and_then (userId_from_token s) (\<lambda>userId1 s1.
           and_then (userId_from_conversation (the conversationId) userId1 s1) (\<lambda>userId2 s2.
           and_then (session_user storedToken (the userId2) s2) (\<lambda>user s3.
             ensure_conversation (the conversationId) (the userId2) user s3))))"

text \<open>
  The \<^verbatim>\<open>try\<close> block of \<^verbatim>\<open>wrappedOnFinish\<close>: the \<^verbatim>\<open>DELETE\<close>, then one \<^verbatim>\<open>INSERT\<close> per message of
  the log, in order. The first statement that throws ends the block; the \<^verbatim>\<open>catch\<close> logs.
\<close>

fun insert_all :: "json_codec \<Rightarrow> string \<Rightarrow> ChatMessage list \<Rightarrow> D1 \<Rightarrow> bool \<times> D1" where
  "insert_all codec conversationId [] db = (False, db)"
| "insert_all codec conversationId (m # ms) db =
     (case insert_message conversationId (role m) (stringify codec m) db of
        (True, db') \<Rightarrow> (True, db')
      | (False, db') \<Rightarrow> insert_all codec conversationId ms db')"

definition save_messages :: "json_codec \<Rightarrow> string \<Rightarrow> ChatMessage list \<Rightarrow> D1 \<Rightarrow> D1" where
  "save_messages codec conversationId ms db =
     (case delete_messages conversationId db of
        (True, db') \<Rightarrow> db'
      | (False, db') \<Rightarrow> snd (insert_all codec conversationId ms db'))"

text \<open>
  \<^verbatim>\<open>wrappedOnFinish\<close>, with the \<^verbatim>\<open>conversationId\<close> and \<^verbatim>\<open>userId\<close> that \<^verbatim>\<open>onChatMessage\<close>
  captured. \<open>onFinish\<close> is the callback of the agent library, which the wrapper awaits
  first; it may change the log. After the save, a log with three or four user messages
  and a conversation still titled \<^verbatim>\<open>New conversation\<close> starts a title generation; that
  query is outside the \<^verbatim>\<open>try\<close>.
\<close>

definition wrappedOnFinish ::
  "json_codec \<Rightarrow> string \<Rightarrow> string option \<Rightarrow> (ChatMessage list \<Rightarrow> ChatMessage list)
    \<Rightarrow> Chat \<times> D1 \<Rightarrow> unit result \<times> Chat \<times> D1" where
  "wrappedOnFinish codec conversationId userId onFinish s =
     (let st = (fst s)\<lparr>messages := onFinish (messages (fst s))\<rparr>;
          db1 = save_messages codec conversationId (messages st) (snd s);
          userMessageCount = length (filter (\<lambda>m. role m = ''user'') (messages st))
      in if userMessageCount \<ge> 3 \<and> userMessageCount \<le> 4 then
           (case select_conversation (SelectConversationTitle conversationId)
                   conversationId db1 of
              (Threw, db2) \<Rightarrow> (Thrown D1Error, st, db2)
            | (Result (Some conv), db2) \<Rightarrow>
                (if conv_title conv = ''New conversation'' \<and> truthy userId
                 then (Returned (),
                       st\<lparr>title_jobs := title_jobs st @ [(conversationId, the userId)]\<rparr>, db2)
                 else (Returned (), st, db2))
            | (Result None, db2) \<Rightarrow> (Returned (), st, db2))
         else (Returned (), st, db1))"

section \<open>Vocabulary of the properties\<close>

subsection \<open>Collaborative editing\<close>

text \<open>The first two statements of \<^verbatim>\<open>handleEdit\<close>: the action with the sender's id and the
  current time.\<close>

definition stamp :: "Env \<Rightarrow> User \<Rightarrow> EditAction \<Rightarrow> EditAction" where
  "stamp env user a = a\<lparr>action_userId := user_id user, action_timestamp := env_now env\<rparr>"

text \<open>The bounded history: \<^verbatim>\<open>slice(-100)\<close> of a list longer than 100, the list itself
  otherwise.\<close>

definition last100 :: "'a list \<Rightarrow> 'a list" where
  "last100 xs = drop (length xs - 100) xs"

text \<open>The sockets a broadcast reaches: the sessions, in order, other than the excluded one,
  that are open and on which \<^verbatim>\<open>send\<close> does not throw.\<close>

definition receivers :: "Env \<Rightarrow> nat option \<Rightarrow> CollaborativeItinerary \<Rightarrow> nat list" where
  "receivers env exclude st =
     filter (\<lambda>ws. Some ws \<noteq> exclude \<and> ready_open env ws \<and> \<not> send_throws env ws)
       (map fst (sessions st))"

text \<open>A sequence of edits, each with its own environment (clock, storage, sockets) and
  sender.\<close>

definition run_edits ::
  "(Env \<times> User \<times> EditAction) list \<Rightarrow> CollaborativeItinerary \<Rightarrow> CollaborativeItinerary" where
  "run_edits evs st = fold (\<lambda>ev s. snd (handleEdit (fst ev) (fst (snd ev)) (snd (snd ev)) s)) evs st"

text \<open>
  The steps of an edit in the order the specification lists them: stamp, apply, append to
  the bounded history, persist, broadcast. It differs from \<open>handleEdit\<close> in the place of
  the history step only.
\<close>

definition handleEdit_history_first ::
  "Env \<Rightarrow> User \<Rightarrow> EditAction \<Rightarrow> CollaborativeItinerary \<Rightarrow> outcome \<times> CollaborativeItinerary" where
  "handleEdit_history_first env user action0 st =
     (let action = stamp env user action0;
          st1 = st\<lparr>itineraryData := apply_edit (action_data action) (itineraryData st)\<rparr>;
          st2 = st1\<lparr>editHistory := last100 (editHistory st1 @ [recorded action])\<rparr>
      in if put_fails env then (Rejected, st2)
         else
           (Completed,
            broadcast env
              (EditBroadcast action (user_id user) (user_name user) (user_color user)) None
              (st2\<lparr>storage := itineraryData st2,
                   effects := effects st2 @ [StoragePut (itineraryData st2)]\<rparr>)))"

text \<open>No day of the document has the day number: there is no document, or it has no
  \<^verbatim>\<open>days\<close>, or no day in \<^verbatim>\<open>days\<close> matches.\<close>

definition no_day_matches :: "int \<Rightarrow> Itinerary option \<Rightarrow> bool" where
  "no_day_matches n doc =
     (case doc of
        None \<Rightarrow> True
      | Some it \<Rightarrow> (case days it of None \<Rightarrow> True | Some ds \<Rightarrow> list_all (\<lambda>x. dayNumber x \<noteq> n) ds))"





subsection \<open>The conversation actor\<close>

text \<open>None of the next \<open>n\<close> statements meets a fault.\<close>

definition no_fault :: "nat \<Rightarrow> D1 \<Rightarrow> bool" where
  "no_fault n db = list_all (\<lambda>f. \<not> f) (take n (faults db))"

text \<open>Whether the next statement meets a fault, and the number of messages of role
  \<^verbatim>\<open>user\<close> in a log.\<close>

definition head_fault :: "bool list \<Rightarrow> bool" where
  "head_fault fs = (case fs of [] \<Rightarrow> False | f # _ \<Rightarrow> f)"

definition user_turns :: "ChatMessage list \<Rightarrow> nat" where
  "user_turns ms = length (filter (\<lambda>m. role m = ''user'') ms)"

text \<open>The row the \<^verbatim>\<open>INSERT\<close> of \<^verbatim>\<open>wrappedOnFinish\<close> writes for a message at time \<open>t\<close>.\<close>

definition message_row :: "json_codec \<Rightarrow> string \<Rightarrow> nat \<Rightarrow> ChatMessage \<Rightarrow> MessageRow" where
  "message_row codec conversationId t m =
     \<lparr>msg_conversation_id = conversationId, msg_role = role m,
      msg_content = stringify codec m, msg_created_at = t\<rparr>"

text \<open>
  The log a reload leaves: the decoded rows of the conversation in creation order when the
  query succeeds and every row decodes, the empty log when the query throws or a row does
  not decode.
\<close>

definition loaded_log :: "json_codec \<Rightarrow> string \<Rightarrow> D1 \<Rightarrow> ChatMessage list" where
  "loaded_log codec conversationId db =
     (case faults db of
        True # _ \<Rightarrow> []
      | _ \<Rightarrow>
          (case parse_rows codec (map msg_content (messages_of conversationId db)) of
             None \<Rightarrow> []
           | Some ms \<Rightarrow> ms))"

text \<open>A load that fails: the query throws, or a row of the conversation does not decode.\<close>

definition load_fails :: "json_codec \<Rightarrow> string \<Rightarrow> D1 \<Rightarrow> bool" where
  "load_fails codec conversationId db =
     (head_fault (faults db)
      \<or> parse_rows codec (map msg_content (messages_of conversationId db)) = None)"

text \<open>
  The identity of a turn, source by source. First the user id in storage, which
  \<^verbatim>\<open>onRequest\<close> sets from the token of a request; when that is missing, the user of the
  stored token.
\<close>

definition token_userId :: "Chat \<Rightarrow> D1 \<Rightarrow> string option" where
  "token_userId st db =
     (if \<not> truthy (stored_userId st) \<and> truthy (stored_userToken st)
         \<and> token_user db (the (stored_userToken st)) \<noteq> None
      then map_option au_userId (token_user db (the (stored_userToken st)))
      else stored_userId st)"

text \<open>Then, when both are missing, the user of the conversation record.\<close>

definition resolve_userId :: "Chat \<Rightarrow> D1 \<Rightarrow> string option" where
  "resolve_userId st db =
     (if truthy (stored_userId st) then stored_userId st
      else
        (let from_token =
               (if truthy (stored_userToken st)
                then map_option au_userId (token_user db (the (stored_userToken st)))
                else None)
         in if truthy from_token then from_token
            else
              (let from_conversation =
                     map_option conv_user_id (conversation_row db (the (stored_conversationId st)))
               in if truthy from_conversation then from_conversation else None)))"

text \<open>The \<^verbatim>\<open>user\<close> object built from the row of the session query.\<close>

definition session_auth_user :: "SessionRow \<times> UserRow \<Rightarrow> AuthUser" where
  "session_auth_user r =
     \<lparr>au_userId = usr_id (snd r), au_email = usr_email (snd r), au_name = usr_name (snd r)\<rparr>"

text \<open>
  What \<^verbatim>\<open>onChatMessage\<close> answers when the database answers every query: no conversation
  id, no user from any source, no live session of the user found, or the user.
\<close>

definition identity_outcome :: "Chat \<Rightarrow> D1 \<Rightarrow> AuthUser result" where
  "identity_outcome st db =
     (if \<not> truthy (stored_conversationId st) then Thrown NoConversationId
      else
        (case resolve_userId st db of
           None \<Rightarrow> Thrown UnauthorizedNoSession
         | Some userId \<Rightarrow>
             (case latest_session db userId of
                None \<Rightarrow> Thrown UnauthorizedExpired
              | Some r \<Rightarrow> Returned (session_auth_user r))))"

text \<open>Two database states with the same tables, clock and pending faults; they differ in
  the record of statements at most.\<close>

definition same_tables :: "D1 \<Rightarrow> D1 \<Rightarrow> bool" where
  "same_tables db db' =
     (chat_messages db' = chat_messages db \<and> chat_conversations db' = chat_conversations db
      \<and> session_tbl db' = session_tbl db \<and> user_tbl db' = user_tbl db
      \<and> clock db' = clock db \<and> faults db' = faults db)"

subsection \<open>Scenarios\<close>

text \<open>
  Two users on the itinerary \<^verbatim>\<open>trip1\<close>, which has one empty day; an activity \<^verbatim>\<open>X\<close>, an
  action adding it to day 1 and one retitling it; two votes on it.
\<close>

definition alice :: User where
  "alice = \<lparr>user_id = ''A'', user_name = ''Alice'', user_email = ''a@example.org'',
            user_color = ''#3B82F6''\<rparr>"

definition bob :: User where
  "bob = \<lparr>user_id = ''B'', user_name = ''Bob'', user_email = ''b@example.org'',
          user_color = ''#10B981''\<rparr>"

definition activity_x :: Activity where
  "activity_x = \<lparr>act_id = ''X'', act_props = [(''title'', ''Colosseum'')], act_votes = None\<rparr>"

definition trip1 :: Itinerary where
  "trip1 = \<lparr>it_props = [(''id'', ''trip1'')],
            days = Some [\<lparr>day_date = ''2025-05-01'', dayNumber = 1, activities = []\<rparr>]\<rparr>"

definition trip1_session :: CollaborativeItinerary where
  "trip1_session = (collab_init (Some trip1))\<lparr>sessions := [(1, alice), (2, bob)]\<rparr>"

text \<open>An environment at time \<open>t\<close> with every socket open and sound; the flag says whether the
  storage write fails.\<close>

definition env_at :: "nat \<Rightarrow> bool \<Rightarrow> Env" where
  "env_at t fails =
     \<lparr>env_now = t, put_fails = fails, ready_open = (\<lambda>ws. True), send_throws = (\<lambda>ws. False)\<rparr>"

definition add_x :: EditAction where
  "add_x = \<lparr>action_data = ActivityAdd 1 activity_x, action_userId = '''', action_timestamp = 0\<rparr>"

definition update_x :: EditAction where
  "update_x =
     \<lparr>action_data = ActivityUpdate ''X''
        \<lparr>upd_id = None, upd_props = [(''title'', ''Forum'')], upd_votes = None\<rparr>,
      action_userId = ''someone'', action_timestamp = 3\<rparr>"



text \<open>Three notification streams: two of \<^verbatim>\<open>alice\<close> (writers 0 and 2), one of \<^verbatim>\<open>bob\<close>
  (writer 3).\<close>

definition three_streams :: NotificationManager where
  "three_streams =
     snd (subscribe ''bob'' (snd (subscribe ''alice'' (snd (subscribe ''alice'' nm_init)))))"

text \<open>
  A codec for the scenarios (\<^verbatim>\<open>role:body\<close>), a database with one stored message for each of
  the conversations \<^verbatim>\<open>c1\<close> and \<^verbatim>\<open>c2\<close>, a conversation record, a user and her live session,
  an actor holding a log of two messages for \<^verbatim>\<open>c1\<close>, and a request for \<^verbatim>\<open>c1\<close> without a token.
\<close>

definition codec0 :: json_codec where
  "codec0 =
     \<lparr>stringify = (\<lambda>m. role m @ '':'' @ body m),
      parse = (\<lambda>s. if CHR '':'' \<in> set s
                    then Some \<lparr>role = takeWhile (\<lambda>c. c \<noteq> CHR '':'') s,
                               body = tl (dropWhile (\<lambda>c. c \<noteq> CHR '':'') s)\<rparr>
                    else None)\<rparr>"

definition m_hello :: ChatMessage where
  "m_hello = \<lparr>role = ''user'', body = ''hello''\<rparr>"

definition m_reply :: ChatMessage where
  "m_reply = \<lparr>role = ''assistant'', body = ''hi''\<rparr>"

definition db0 :: D1 where
  "db0 =
     \<lparr>chat_messages =
        [\<lparr>msg_conversation_id = ''c1'', msg_role = ''user'', msg_content = ''user:old'',
          msg_created_at = 10\<rparr>,
         \<lparr>msg_conversation_id = ''c2'', msg_role = ''user'', msg_content = ''user:other'',
          msg_created_at = 11\<rparr>],
      chat_conversations =
        [\<lparr>conv_id = ''c1'', conv_user_id = ''u1'', conv_title = ''New conversation''\<rparr>],
      session_tbl =
        [\<lparr>sess_token = ''tok1'', sess_user_id = ''u1'', sess_expires_at = 100,
          sess_created_at = 1\<rparr>],
      user_tbl = [\<lparr>usr_id = ''u1'', usr_email = ''una@example.org'', usr_name = ''Una''\<rparr>],
      clock = 50, faults = [], statements = []\<rparr>"

definition chat_two :: Chat where
  "chat_two = (chat_init (Some ''c1'') None (Some ''u1''))\<lparr>messages := [m_hello, m_reply]\<rparr>"

definition req_c1 :: ChatRequest where
  "req_c1 =
     \<lparr>req_token = None, req_authorization = None, req_pk = None,
      req_conversationId = Some ''c1'', req_pathname = ''/agents/chat/c1''\<rparr>"

section \<open>Proofs: the notification fan-out\<close>

lemma fold_drop_failed_None:
  "connections st u = None \<Longrightarrow> fold (drop_failed u) cs st = st"
  by (induction cs) (simp_all add: drop_failed_def)

lemma drop_failed_connections [simp]:
  "connections (drop_failed u c st) = connections st"
  by (simp add: drop_failed_def split: option.splits)

lemma drop_failed_next_ref [simp]:
  "next_ref (drop_failed u c st) = next_ref st"
  by (simp add: drop_failed_def split: option.splits)

lemma fold_drop_failed_connections [simp]:
  "connections (fold (drop_failed u) cs st) = connections st"
  by (induction cs arbitrary: st) simp_all

lemma fold_drop_failed_next_ref [simp]:
  "next_ref (fold (drop_failed u) cs st) = next_ref st"
  by (induction cs arbitrary: st) simp_all

lemma fold_drop_failed_arrays:
  "connections st u = Some a \<Longrightarrow>
   arrays (fold (drop_failed u) cs st) = (arrays st)(a := fold remove1 cs (arrays st a))"
  by (induction cs arbitrary: st) (simp_all add: drop_failed_def)

lemma fold_remove1_Cons_notin:
  "x \<notin> set cs \<Longrightarrow> fold remove1 cs (x # xs) = x # fold remove1 cs xs"
  by (induction cs arbitrary: xs) auto

lemma fold_remove1_filter:
  "fold remove1 (filter P xs) xs = filter (\<lambda>x. \<not> P x) xs"
proof (induction xs)
  case Nil
  show ?case by simp
next
  case (Cons x xs)
  show ?case
  proof (cases "P x")
    case True
    with Cons show ?thesis by simp
  next
    case False
    then have "x \<notin> set (filter P xs)" by auto
    with False Cons show ?thesis by (simp add: fold_remove1_Cons_notin)
  qed
qed

lemma notify_registry:
  "registry (fst (notify broken u json st)) u
     = filter (\<lambda>c. \<not> broken (writer c)) (registry st u)"
  by (simp add: notify_def registry_def Let_def fold_drop_failed_arrays
        fold_remove1_filter split: option.splits)

lemma notify_sent:
  "snd (snd (notify broken u json st))
     = length (filter (\<lambda>c. \<not> broken (writer c)) (registry st u))"
  by (simp add: notify_def registry_def Let_def fold_drop_failed_arrays
        fold_remove1_filter split: option.splits)

lemma notify_attempts:
  "fst (snd (notify broken u json st))
     = map (\<lambda>c. (writer c, sse_frame json, \<not> broken (writer c))) (registry st u)"
  by (simp add: notify_def registry_def Let_def split: option.splits)

lemma wf_init: "wf_registry nm_init"
  by (simp add: wf_registry_def nm_init_def registry_def)

lemma wf_registry_other_addr:
  "wf_registry st \<Longrightarrow> connections st u = Some a \<Longrightarrow> connections st v = Some b \<Longrightarrow> v \<noteq> u \<Longrightarrow> b \<noteq> a"
  unfolding wf_registry_def by blast

lemma wf_registry_addr_bound: "wf_registry st \<Longrightarrow> connections st u = Some a \<Longrightarrow> a < next_ref st"
  unfolding wf_registry_def by blast

lemma wf_registry_writer_bound: "wf_registry st \<Longrightarrow> c \<in> set (registry st u) \<Longrightarrow> writer c < next_ref st"
  unfolding wf_registry_def by blast

lemma wf_registry_owner:
  "wf_registry st \<Longrightarrow> c \<in> set (registry st u) \<Longrightarrow> d \<in> set (registry st v) \<Longrightarrow> writer c = writer d
     \<Longrightarrow> u = v"
  unfolding wf_registry_def by blast

lemma subscribe_registry:
  assumes "wf_registry st"
  shows "registry (snd (subscribe u st)) v
           = (if v = u then registry st u @ [fst (subscribe u st)] else registry st v)"
proof (cases "connections st u")
  case None
  show ?thesis
  proof (cases "connections st v")
    case N2: None
    with None show ?thesis by (simp add: subscribe_def registry_def Let_def)
  next
    case (Some b)
    with assms have "b < next_ref st" by (rule wf_registry_addr_bound)
    with None Some show ?thesis by (auto simp add: subscribe_def registry_def Let_def)
  qed
next
  case (Some a)
  show ?thesis
  proof (cases "v = u")
    case True
    with Some show ?thesis by (simp add: subscribe_def registry_def Let_def)
  next
    case False
    show ?thesis
    proof (cases "connections st v")
      case None
      with Some False show ?thesis by (simp add: subscribe_def registry_def Let_def)
    next
      case S2: (Some b)
      with assms Some False have "b \<noteq> a" by (metis wf_registry_other_addr)
      with Some S2 False show ?thesis by (simp add: subscribe_def registry_def Let_def)
    qed
  qed
qed

lemma subscribe_next_ref: "next_ref st < next_ref (snd (subscribe u st))"
  by (simp add: subscribe_def Let_def split: option.splits)

lemma subscribe_writer: "writer (fst (subscribe u st)) = next_ref st"
  by (simp add: subscribe_def Let_def split: option.splits)

lemma subscribe_connections:
  "connections (snd (subscribe u st)) v = Some b \<Longrightarrow>
     connections st v = Some b \<or> (v = u \<and> connections st u = None \<and> b = next_ref st + 1)"
  by (auto simp add: subscribe_def Let_def split: option.splits if_splits)

lemma wf_subscribe:
  assumes "wf_registry st" shows "wf_registry (snd (subscribe u st))"
proof -
  let ?st = "snd (subscribe u st)"
  have b: "\<And>v a. connections st v = Some a \<Longrightarrow> a < next_ref st"
    using assms unfolding wf_registry_def by blast
  have i: "\<And>v w a. connections st v = Some a \<Longrightarrow> connections st w = Some a \<Longrightarrow> v = w"
    using assms unfolding wf_registry_def by blast
  have 1: "\<forall>v w a. connections ?st v = Some a \<and> connections ?st w = Some a \<longrightarrow> v = w"
    by (auto simp add: subscribe_def Let_def split: option.splits if_splits dest: b i)
  have 2: "\<forall>v a. connections ?st v = Some a \<longrightarrow> a < next_ref ?st"
    by (auto simp add: subscribe_def Let_def less_Suc_eq split: option.splits if_splits dest: b)
  have 3: "\<forall>v c. c \<in> set (registry ?st v) \<longrightarrow> writer c < next_ref ?st"
    using subscribe_next_ref [of st u]
    by (auto simp add: subscribe_registry [OF assms] subscribe_writer split: if_splits
          dest!: wf_registry_writer_bound [OF assms])
  have 4: "\<forall>v w c d. c \<in> set (registry ?st v) \<and> d \<in> set (registry ?st w)
             \<and> writer c = writer d \<longrightarrow> v = w"
    by (auto simp add: subscribe_registry [OF assms] subscribe_writer split: if_splits
          dest: wf_registry_writer_bound [OF assms] wf_registry_owner [OF assms])
  from 1 2 3 4 show ?thesis unfolding wf_registry_def by blast
qed


lemma on_abort_registry:
  assumes "wf_registry st"
  shows "registry (on_abort u c st) v
           = (if v = u then remove1 c (registry st u) else registry st v)"
proof (cases "connections st u")
  case None
  then show ?thesis by (simp add: on_abort_def registry_def)
next
  case (Some a)
  show ?thesis
  proof (cases "v = u")
    case True
    with Some show ?thesis by (simp add: on_abort_def registry_def Let_def)
  next
    case False
    show ?thesis
    proof (cases "connections st v")
      case None
      with Some False show ?thesis by (simp add: on_abort_def registry_def Let_def)
    next
      case S2: (Some b)
      with assms Some False have "b \<noteq> a" by (metis wf_registry_other_addr)
      with Some S2 False show ?thesis by (simp add: on_abort_def registry_def Let_def)
    qed
  qed
qed

lemma wf_on_abort:
  assumes "wf_registry st" shows "wf_registry (on_abort u c st)"
proof -
  let ?st = "on_abort u c st"
  have b: "\<And>v a. connections st v = Some a \<Longrightarrow> a < next_ref st"
    using assms unfolding wf_registry_def by blast
  have i: "\<And>v w a. connections st v = Some a \<Longrightarrow> connections st w = Some a \<Longrightarrow> v = w"
    using assms unfolding wf_registry_def by blast
  have n: "next_ref ?st = next_ref st"
    by (simp add: on_abort_def Let_def split: option.splits)
  have 1: "\<forall>v w a. connections ?st v = Some a \<and> connections ?st w = Some a \<longrightarrow> v = w"
    by (auto simp add: on_abort_def Let_def split: option.splits if_splits dest: i)
  have 2: "\<forall>v a. connections ?st v = Some a \<longrightarrow> a < next_ref ?st"
    by (auto simp add: on_abort_def Let_def split: option.splits if_splits dest: b)
  have 3: "\<forall>v c. c \<in> set (registry ?st v) \<longrightarrow> writer c < next_ref ?st"
    by (auto simp add: on_abort_registry [OF assms] n split: if_splits
          dest!: set_remove1_subset [THEN subsetD] wf_registry_writer_bound [OF assms])
  have 4: "\<forall>v w c d. c \<in> set (registry ?st v) \<and> d \<in> set (registry ?st w)
             \<and> writer c = writer d \<longrightarrow> v = w"
    by (auto simp add: on_abort_registry [OF assms] split: if_splits
          dest!: set_remove1_subset [THEN subsetD] dest: wf_registry_owner [OF assms])
  from 1 2 3 4 show ?thesis unfolding wf_registry_def by blast
qed

lemma notify_registry_all:
  assumes "wf_registry st"
  shows "registry (fst (notify broken u json st)) v
           = (if v = u then filter (\<lambda>c. \<not> broken (writer c)) (registry st u) else registry st v)"
proof (cases "v = u")
  case True
  then show ?thesis by (simp add: notify_registry)
next
  case False
  show ?thesis
  proof (cases "connections st u")
    case None
    then show ?thesis using False by (simp add: notify_def)
  next
    case (Some a)
    show ?thesis
    proof (cases "connections st v")
      case None
      with Some False show ?thesis by (simp add: notify_def registry_def Let_def)
    next
      case S2: (Some b)
      with assms Some False have "b \<noteq> a" by (metis wf_registry_other_addr)
      with Some S2 False show ?thesis
        by (simp add: notify_def registry_def Let_def fold_drop_failed_arrays)
    qed
  qed
qed

lemma wf_notify:
  assumes "wf_registry st" shows "wf_registry (fst (notify broken u json st))"
proof -
  let ?st = "fst (notify broken u json st)"
  have c: "connections ?st = connections st"
    by (simp add: notify_def Let_def split: option.splits)
  have n: "next_ref ?st = next_ref st"
    by (simp add: notify_def Let_def split: option.splits)
  have 3: "\<forall>v c. c \<in> set (registry ?st v) \<longrightarrow> writer c < next_ref ?st"
    by (auto simp add: notify_registry_all [OF assms] n split: if_splits
          dest!: wf_registry_writer_bound [OF assms])
  have 4: "\<forall>v w c d. c \<in> set (registry ?st v) \<and> d \<in> set (registry ?st w)
             \<and> writer c = writer d \<longrightarrow> v = w"
    by (auto simp add: notify_registry_all [OF assms] split: if_splits
          dest: wf_registry_owner [OF assms])
  from 3 4 assms show ?thesis unfolding wf_registry_def c n by blast
qed


text \<open>A \<^verbatim>\<open>POST /notify\<close> that names a user in its query runs \<open>notify\<close> for the user named in
  its body.\<close>

lemma nm_fetch_notify:
  assumes "truthy (query_userId req)" and "pathname req = ''/notify''"
    and "http_method req = ''POST''"
  shows "nm_fetch broken req st
           = (case notify broken (body_userId req) (body_data req) st of
                (st', attempts, sent) \<Rightarrow> (st', attempts, Notified sent))"
  using assms by (simp add: nm_fetch_def)

subsection \<open>Claims on the fan-out\<close>

text \<open>
  Claim C4. For \<^verbatim>\<open>notify(userId, payload)\<close>: the framed event is written to every connection
  registered for the user; a connection whose write fails is removed from the user's
  registry and no other is, so the registry afterwards is exactly the connections whose
  write succeeded, in order; and the count returned is the number of successful writes.
  The count is read from the array after the failed connections were spliced out of it.
\<close>

theorem notify_failed_writer_pruned:
  "(case notify broken u json st of (st', attempts, sent) \<Rightarrow>
      registry st' u = filter (\<lambda>c. \<not> broken (writer c)) (registry st u)
    \<and> attempts = map (\<lambda>c. (writer c, sse_frame json, \<not> broken (writer c))) (registry st u)
    \<and> sent = length (filter (\<lambda>a. snd (snd a)) attempts))"
proof -
  have "length (filter (\<lambda>a. snd (snd a))
           (map (\<lambda>c. (writer c, sse_frame json, \<not> broken (writer c))) (registry st u)))
        = length (filter (\<lambda>c. \<not> broken (writer c)) (registry st u))"
    by (simp add: filter_map comp_def)
  then show ?thesis
    using notify_registry [of broken u json st] notify_attempts [of broken u json st]
      notify_sent [of broken u json st]
    by (simp add: split_beta)
qed

lemma three_streams_registry:
  "registry three_streams ''alice''
     = [\<lparr>writer = 0, conn_userId = ''alice''\<rparr>, \<lparr>writer = 2, conn_userId = ''alice''\<rparr>]"
  "registry three_streams ''bob'' = [\<lparr>writer = 3, conn_userId = ''bob''\<rparr>]"
  by (simp_all add: three_streams_def subscribe_def nm_init_def registry_def Let_def)

text \<open>Of the two streams of \<^verbatim>\<open>alice\<close> the first is broken: it is pruned, the second gets the
  frame, and the count is 1.\<close>

theorem notify_failed_writer_pruned_witness:
  "(case notify (\<lambda>w. w = 0) ''alice'' ''[]'' three_streams of (st', attempts, sent) \<Rightarrow>
      registry st' ''alice'' = [\<lparr>writer = 2, conn_userId = ''alice''\<rparr>]
    \<and> attempts = [(0, sse_frame ''[]'', False), (2, sse_frame ''[]'', True)]
    \<and> sent = 1)"
  using notify_failed_writer_pruned
      [where broken = "\<lambda>w. w = 0" and u = "''alice''" and json = "''[]''" and st = three_streams]
  by (simp add: split_beta three_streams_registry)

text \<open>
  Claim C7. In a well-formed registry, \<^verbatim>\<open>notify(userA, payload)\<close> writes the framed event
  once to each writer registered under \<^verbatim>\<open>userA\<close>, in order, and for every other user \<open>v\<close>
  the registry is unchanged and none of its writers is written to.
\<close>

theorem notify_reaches_only_target_user:
  assumes "wf_registry st"
  shows "(case notify broken userA json st of (st', attempts, sent) \<Rightarrow>
            map fst attempts = map writer (registry st userA)
          \<and> list_all (\<lambda>a. fst (snd a) = sse_frame json) attempts
          \<and> (v \<noteq> userA \<longrightarrow>
                 registry st' v = registry st v
               \<and> list_all (\<lambda>c. writer c \<notin> fst ` set attempts) (registry st v)))"
proof -
  have a: "fst (snd (notify broken userA json st))
             = map (\<lambda>c. (writer c, sse_frame json, \<not> broken (writer c))) (registry st userA)"
    by (rule notify_attempts)
  have w: "fst ` set (fst (snd (notify broken userA json st))) = writer ` set (registry st userA)"
    unfolding a by (auto simp add: image_iff)
  have o: "list_all (\<lambda>c. writer c \<notin> fst ` set (fst (snd (notify broken userA json st))))
             (registry st v)" if "v \<noteq> userA"
    unfolding w list_all_iff using wf_registry_owner [OF assms] that by blast
  have r: "registry (fst (notify broken userA json st)) v = registry st v" if "v \<noteq> userA"
    using notify_registry_all [OF assms, of broken userA json v] that by simp
  from o r show ?thesis by (simp add: split_beta a comp_def list_all_iff)
qed

text \<open>The event goes to the writers 0 and 2 of \<^verbatim>\<open>alice\<close>; the stream of \<^verbatim>\<open>bob\<close> stays
  registered and is not written to.\<close>

lemma three_streams_wf: "wf_registry three_streams"
  unfolding three_streams_def by (intro wf_subscribe wf_init)

theorem notify_reaches_only_target_user_witness:
  "wf_registry three_streams
   \<and> map fst (fst (snd (notify (\<lambda>w. False) ''alice'' ''[]'' three_streams))) = [0, 2]
   \<and> registry (fst (notify (\<lambda>w. False) ''alice'' ''[]'' three_streams)) ''bob''
       = [\<lparr>writer = 3, conn_userId = ''bob''\<rparr>]
   \<and> list_all (\<lambda>c. writer c \<notin> fst ` set (fst (snd (notify (\<lambda>w. False) ''alice'' ''[]'' three_streams))))
        (registry three_streams ''bob'')"
  using notify_reaches_only_target_user
      [OF three_streams_wf, where broken = "\<lambda>w. False" and userA = "''alice''" and json = "''[]''"
         and v = "''bob''"]
    three_streams_wf
  by (simp add: split_beta three_streams_registry)

section \<open>Proofs: collaborative editing\<close>

lemma broadcast_to_frame [simp]:
  "itineraryData (broadcast_to env m ex ws st) = itineraryData st"
  "storage (broadcast_to env m ex ws st) = storage st"
  "editHistory (broadcast_to env m ex ws st) = editHistory st"
  "collaborators (broadcast_to env m ex ws st) = collaborators st"
  by (simp_all add: broadcast_to_def)

lemma fold_broadcast_to_frame [simp]:
  "itineraryData (fold (broadcast_to env m ex) wss st) = itineraryData st"
  "storage (fold (broadcast_to env m ex) wss st) = storage st"
  "editHistory (fold (broadcast_to env m ex) wss st) = editHistory st"
  "collaborators (fold (broadcast_to env m ex) wss st) = collaborators st"
  by (induction wss arbitrary: st) simp_all

lemma broadcast_frame [simp]:
  "itineraryData (broadcast env m ex st) = itineraryData st"
  "storage (broadcast env m ex st) = storage st"
  "editHistory (broadcast env m ex st) = editHistory st"
  "collaborators (broadcast env m ex st) = collaborators st"
  by (simp_all add: broadcast_def)

lemma fold_broadcast_to_effects:
  "effects (fold (broadcast_to env m ex) wss st)
     = effects st @ map (\<lambda>ws. Send ws m)
         (filter (\<lambda>ws. Some ws \<noteq> ex \<and> ready_open env ws \<and> \<not> send_throws env ws) wss)"
  by (induction wss arbitrary: st) (simp_all add: broadcast_to_def)

lemma broadcast_effects:
  "effects (broadcast env m ex st) = effects st @ map (\<lambda>ws. Send ws m) (receivers env ex st)"
  by (simp add: broadcast_def receivers_def fold_broadcast_to_effects)

lemma handleEdit_doc:
  "itineraryData (snd (handleEdit env user a st)) = apply_edit (action_data a) (itineraryData st)"
  by (simp add: handleEdit_def Let_def)

lemma run_edits_doc:
  "itineraryData (run_edits evs st)
     = fold apply_edit (map (\<lambda>ev. action_data (snd (snd ev))) evs) (itineraryData st)"
  unfolding run_edits_def
  by (induction evs arbitrary: st) (simp_all add: handleEdit_doc)

text \<open>
  Claim C8. The document after a sequence of edits is the fold of \<open>apply_edit\<close> over the
  payloads of the actions from the starting document. So two runs from equal documents
  with the same payloads end in the same document, whatever the time stamps, the senders,
  the sockets and the outcomes of the storage writes were in each run.
\<close>

theorem edit_fold_deterministic:
  assumes "itineraryData st1 = itineraryData st2"
    and "map (\<lambda>ev. action_data (snd (snd ev))) evs1 = map (\<lambda>ev. action_data (snd (snd ev))) evs2"
  shows "itineraryData (run_edits evs1 st1) = itineraryData (run_edits evs2 st2)"
  using assms by (simp add: run_edits_doc)

lemma handleEdit_rejected:
  "put_fails env \<Longrightarrow>
   handleEdit env user a st
     = (Rejected, st\<lparr>itineraryData := apply_edit (action_data a) (itineraryData st)\<rparr>)"
  by (simp add: handleEdit_def Let_def)

lemma handleEdit_completed:
  assumes "\<not> put_fails env"
  shows "fst (handleEdit env user a st) = Completed"
    and "storage (snd (handleEdit env user a st)) = apply_edit (action_data a) (itineraryData st)"
    and "editHistory (snd (handleEdit env user a st)) = last100 (editHistory st @ [recorded (stamp env user a)])"
    and "effects (snd (handleEdit env user a st))
           = effects st @ StoragePut (apply_edit (action_data a) (itineraryData st))
               # map (\<lambda>ws. Send ws (EditBroadcast (stamp env user a) (user_id user) (user_name user)
                         (user_color user))) (receivers env None st)"
  using assms
  by (simp_all add: handleEdit_def Let_def broadcast_effects receivers_def stamp_def last100_def)

subsection \<open>Adding an activity, voting\<close>

lemma findIndex_None: "findIndex P xs = None \<longleftrightarrow> (\<forall>x \<in> set xs. \<not> P x)"
  by (induction xs) auto

lemma findIndex_first:
  "P d \<Longrightarrow> \<forall>x \<in> set pre. \<not> P x \<Longrightarrow> findIndex P (pre @ d # post) = Some (length pre)"
  by (induction pre) auto

lemma addActivity_match:
  assumes "doc = Some it" and "days it = Some (pre @ d # post)"
    and "dayNumber d = n" and "\<forall>x \<in> set pre. dayNumber x \<noteq> n"
  shows "addActivity n a doc
           = Some (it\<lparr>days := Some (pre @ d\<lparr>activities := activities d @ [a]\<rparr> # post)\<rparr>)"
proof -
  have "findIndex (\<lambda>x. dayNumber x = n) (pre @ d # post) = Some (length pre)"
    using assms(3,4) by (intro findIndex_first) simp_all
  with assms(1,2) show ?thesis by (simp add: addActivity_def)
qed

lemma findIndex_NoneI: "\<forall>x \<in> set xs. \<not> P x \<Longrightarrow> findIndex P xs = None"
  by (simp add: findIndex_None)

lemma addActivity_unchanged: "no_day_matches n doc \<Longrightarrow> addActivity n a doc = doc"
  by (auto simp add: no_day_matches_def addActivity_def findIndex_NoneI list_all_iff
        split: option.splits)

text \<open>
  Claim C9. \<^verbatim>\<open>activity-add {dayNumber, activity}\<close> appends the activity to the activities of
  the first day, in stored order, whose day number matches. When no day matches (or there
  is no document, or it has no days) the document is unchanged, and the edit goes on as
  any other: it completes when the storage write does, the unchanged document is persisted
  and the ordinary \<^verbatim>\<open>edit\<close> broadcast is sent; no error is reported to any client.
\<close>

theorem addActivity_appends_to_first_matching_day:
  "(doc = Some it \<and> days it = Some (pre @ d # post) \<and> dayNumber d = n
         \<and> list_all (\<lambda>x. dayNumber x \<noteq> n) pre
       \<longrightarrow> addActivity n a doc
             = Some (it\<lparr>days := Some (pre @ d\<lparr>activities := activities d @ [a]\<rparr> # post)\<rparr>))
   \<and> (no_day_matches n doc \<longrightarrow> addActivity n a doc = doc)
   \<and> (no_day_matches n (itineraryData st) \<and> action_data act = ActivityAdd n a \<longrightarrow>
        itineraryData (snd (handleEdit env user act st)) = itineraryData st
        \<and> fst (handleEdit env user act st) = (if put_fails env then Rejected else Completed)
        \<and> effects (snd (handleEdit env user act st))
            = (if put_fails env then effects st
               else effects st @ StoragePut (itineraryData st)
                  # map (\<lambda>ws. Send ws (EditBroadcast (stamp env user act) (user_id user)
                           (user_name user) (user_color user))) (receivers env None st)))"
proof (intro conjI impI)
  assume "doc = Some it \<and> days it = Some (pre @ d # post) \<and> dayNumber d = n
            \<and> list_all (\<lambda>x. dayNumber x \<noteq> n) pre"
  then show "addActivity n a doc
               = Some (it\<lparr>days := Some (pre @ d\<lparr>activities := activities d @ [a]\<rparr> # post)\<rparr>)"
    by (intro addActivity_match) (simp_all add: list_all_iff)
next
  assume "no_day_matches n doc"
  then show "addActivity n a doc = doc" by (rule addActivity_unchanged)
next
  assume h: "no_day_matches n (itineraryData st) \<and> action_data act = ActivityAdd n a"
  then show "itineraryData (snd (handleEdit env user act st)) = itineraryData st"
    by (simp add: handleEdit_doc addActivity_unchanged)
  show "fst (handleEdit env user act st) = (if put_fails env then Rejected else Completed)"
    by (simp add: handleEdit_rejected handleEdit_completed)
  from h show "effects (snd (handleEdit env user act st))
            = (if put_fails env then effects st
               else effects st @ StoragePut (itineraryData st)
                  # map (\<lambda>ws. Send ws (EditBroadcast (stamp env user act) (user_id user)
                           (user_name user) (user_color user))) (receivers env None st))"
    by (simp add: handleEdit_rejected handleEdit_completed addActivity_unchanged)
qed


lemma obj_set_other: "k' \<noteq> k \<Longrightarrow> map_of (obj_set k v ps) k' = map_of ps k'"
  by (induction ps) auto












subsection \<open>The order of the steps of an edit\<close>

text \<open>
  Claim C5, amended. An \<^verbatim>\<open>edit\<close> stamps the action with the sender's id and the time,
  applies it to the in-memory document, persists the whole document, then appends the
  action to the bounded history (an entry with the action's type, sender and time), then
  broadcasts \<^verbatim>\<open>edit\<close> with the action and the sender's identity to every open connection,
  the sender's included. The storage write precedes every send. When the storage write
  fails, the edit stays applied in memory, and the action is neither appended to the
  history nor broadcast.
\<close>

theorem handleEdit_persists_then_records:
  "(put_fails env \<longrightarrow>
      handleEdit env user a st
        = (Rejected, st\<lparr>itineraryData := apply_edit (action_data a) (itineraryData st)\<rparr>))
   \<and> (\<not> put_fails env \<longrightarrow>
        fst (handleEdit env user a st) = Completed
        \<and> itineraryData (snd (handleEdit env user a st))
            = apply_edit (action_data a) (itineraryData st)
        \<and> storage (snd (handleEdit env user a st))
            = apply_edit (action_data a) (itineraryData st)
        \<and> editHistory (snd (handleEdit env user a st))
            = last100 (editHistory st @ [recorded (stamp env user a)])
        \<and> effects (snd (handleEdit env user a st))
            = effects st @ StoragePut (apply_edit (action_data a) (itineraryData st))
                # map (\<lambda>ws. Send ws (EditBroadcast (stamp env user a) (user_id user)
                          (user_name user) (user_color user))) (receivers env None st))"
  using handleEdit_rejected [of env user a st] handleEdit_completed [of env user a st]
    handleEdit_doc [of env user a st]
  by simp

text \<open>
  Claim C5 as stated puts the history step before the persistence. At a failing storage
  write the two orders differ: the code leaves the history empty, the order of the claim
  has the action in it.
\<close>

theorem handleEdit_history_order_counterexample:
  "handleEdit (env_at 7 True) alice add_x trip1_session
     \<noteq> handleEdit_history_first (env_at 7 True) alice add_x trip1_session
   \<and> editHistory (snd (handleEdit (env_at 7 True) alice add_x trip1_session)) = []
   \<and> editHistory (snd (handleEdit_history_first (env_at 7 True) alice add_x trip1_session))
       = [recorded (stamp (env_at 7 True) alice add_x)]"
  by (simp add: handleEdit_def handleEdit_history_first_def env_at_def trip1_session_def
        collab_init_def last100_def Let_def)

text \<open>Both cases of the amended claim in the scenario: a failed write, and a successful one
  followed by the broadcast to both sockets.\<close>

theorem handleEdit_persists_then_records_witness:
  "put_fails (env_at 7 True) \<and> \<not> put_fails (env_at 7 False)
   \<and> handleEdit (env_at 7 True) alice add_x trip1_session
       = (Rejected, trip1_session\<lparr>itineraryData :=
            apply_edit (action_data add_x) (itineraryData trip1_session)\<rparr>)
   \<and> editHistory (snd (handleEdit (env_at 7 False) alice add_x trip1_session))
       = [recorded (stamp (env_at 7 False) alice add_x)]
   \<and> effects (snd (handleEdit (env_at 7 False) alice add_x trip1_session))
       = [StoragePut (apply_edit (action_data add_x) (itineraryData trip1_session)),
          Send 1 (EditBroadcast (stamp (env_at 7 False) alice add_x) ''A'' ''Alice'' ''#3B82F6''),
          Send 2 (EditBroadcast (stamp (env_at 7 False) alice add_x) ''A'' ''Alice'' ''#3B82F6'')]"
  using handleEdit_persists_then_records [of "env_at 7 True" alice add_x trip1_session]
    handleEdit_persists_then_records [of "env_at 7 False" alice add_x trip1_session]
  by (simp add: env_at_def trip1_session_def collab_init_def last100_def receivers_def alice_def)

subsection \<open>The claims in the scenario\<close>

text \<open>Two runs of the same two payloads with different clocks, senders and storage
  outcomes.\<close>

theorem edit_fold_deterministic_witness:
  "itineraryData trip1_session = itineraryData (collab_init (Some trip1))
   \<and> map (\<lambda>ev. action_data (snd (snd ev)))
        [(env_at 1 False, alice, add_x), (env_at 2 True, bob, update_x)]
     = map (\<lambda>ev. action_data (snd (snd ev)))
        [(env_at 50 True, bob, add_x\<lparr>action_timestamp := 9\<rparr>),
         (env_at 99 False, alice, update_x\<lparr>action_userId := ''B''\<rparr>)]
   \<and> itineraryData (run_edits [(env_at 1 False, alice, add_x), (env_at 2 True, bob, update_x)]
        trip1_session)
     = itineraryData (run_edits [(env_at 50 True, bob, add_x\<lparr>action_timestamp := 9\<rparr>),
         (env_at 99 False, alice, update_x\<lparr>action_userId := ''B''\<rparr>)]
        (collab_init (Some trip1)))"
proof -
  have h1: "itineraryData trip1_session = itineraryData (collab_init (Some trip1))"
    by (simp add: trip1_session_def)
  have h2: "map (\<lambda>ev. action_data (snd (snd ev)))
        [(env_at 1 False, alice, add_x), (env_at 2 True, bob, update_x)]
     = map (\<lambda>ev. action_data (snd (snd ev)))
        [(env_at 50 True, bob, add_x\<lparr>action_timestamp := 9\<rparr>),
         (env_at 99 False, alice, update_x\<lparr>action_userId := ''B''\<rparr>)]"
    by simp
  from edit_fold_deterministic [OF h1 h2] h1 h2 show ?thesis by blast
qed

text \<open>Day 1 exists and receives the activity; day 5 does not exist and nothing changes.\<close>

theorem addActivity_appends_to_first_matching_day_witness:
  "addActivity 1 activity_x (Some trip1)
     = Some (trip1\<lparr>days := Some [\<lparr>day_date = ''2025-05-01'', dayNumber = 1,
                                   activities = [activity_x]\<rparr>]\<rparr>)
   \<and> no_day_matches 5 (Some trip1)
   \<and> addActivity 5 activity_x (Some trip1) = Some trip1"
proof -
  have n: "no_day_matches 5 (Some trip1)" by (simp add: no_day_matches_def trip1_def)
  have d: "days trip1 = Some ([] @ \<lparr>day_date = ''2025-05-01'', dayNumber = 1, activities = []\<rparr> # [])"
    by (simp add: trip1_def)
  note t1 = addActivity_appends_to_first_matching_day
    [where doc = "Some trip1" and it = trip1 and pre = "[]" and post = "[]" and n = 1
       and a = activity_x and d = "\<lparr>day_date = ''2025-05-01'', dayNumber = 1, activities = []\<rparr>"]
  note t2 = addActivity_appends_to_first_matching_day
    [where doc = "Some trip1" and n = 5 and a = activity_x]
  from t1 d have "addActivity 1 activity_x (Some trip1)
     = Some (trip1\<lparr>days := Some [\<lparr>day_date = ''2025-05-01'', dayNumber = 1,
                                   activities = [activity_x]\<rparr>]\<rparr>)"
    by simp
  moreover from t2 n have "addActivity 5 activity_x (Some trip1) = Some trip1" by blast
  ultimately show ?thesis using n by simp
qed




section \<open>Proofs: the conversation actor\<close>

subsection \<open>Saving the log at the end of a turn\<close>

lemma d1_run_ok:
  "no_fault (Suc n) db \<Longrightarrow>
   d1_run s db = (False, db\<lparr>faults := drop 1 (faults db), statements := statements db @ [s]\<rparr>)"
  by (cases "faults db") (simp_all add: d1_run_def no_fault_def)

lemma d1_run_threw:
  "faults db = True # fs \<Longrightarrow>
   d1_run s db = (True, db\<lparr>faults := fs, statements := statements db @ [s]\<rparr>)"
  by (simp add: d1_run_def)

lemma no_fault_drop: "no_fault (Suc n) db \<Longrightarrow> no_fault n (db\<lparr>faults := drop 1 (faults db)\<rparr>)"
  by (cases "faults db") (simp_all add: no_fault_def)

lemma no_fault_frame [simp]:
  "no_fault n (db\<lparr>statements := x\<rparr>) = no_fault n db"
  "no_fault n (db\<lparr>chat_messages := y\<rparr>) = no_fault n db"
  by (simp_all add: no_fault_def)

lemma insert_message_ok:
  "no_fault (Suc n) db \<Longrightarrow>
   insert_message cid r c db
     = (False, db\<lparr>chat_messages := chat_messages db @
                     [\<lparr>msg_conversation_id = cid, msg_role = r, msg_content = c,
                       msg_created_at = clock db\<rparr>],
                  faults := drop 1 (faults db),
                  statements := statements db @ [InsertMessage cid r c]\<rparr>)"
  by (simp add: insert_message_def d1_run_ok)

lemma insert_all_ok:
  "no_fault (length ms) db \<Longrightarrow>
   insert_all codec cid ms db
     = (False, db\<lparr>chat_messages := chat_messages db @ map (message_row codec cid (clock db)) ms,
                  faults := drop (length ms) (faults db),
                  statements := statements db @
                     map (\<lambda>m. InsertMessage cid (role m) (stringify codec m)) ms\<rparr>)"
proof (induction ms arbitrary: db)
  case Nil
  then show ?case by simp
next
  case (Cons m ms)
  let ?db = "db\<lparr>chat_messages := chat_messages db @ [message_row codec cid (clock db) m],
                faults := drop 1 (faults db),
                statements := statements db @ [InsertMessage cid (role m) (stringify codec m)]\<rparr>"
  from Cons.prems have nf: "no_fault (Suc (length ms)) db" by simp
  then have step: "insert_message cid (role m) (stringify codec m) db = (False, ?db)"
    by (simp add: insert_message_ok message_row_def)
  from nf have "no_fault (length ms) ?db"
    using no_fault_drop [of "length ms" db] by (simp add: no_fault_def)
  from Cons.IH [OF this] step show ?case by (simp add: drop_Suc tl_drop)
qed

lemma save_messages_ok:
  assumes "no_fault (Suc (length ms)) db"
  shows "save_messages codec cid ms db
     = db\<lparr>chat_messages := filter (\<lambda>r. msg_conversation_id r \<noteq> cid) (chat_messages db)
                              @ map (message_row codec cid (clock db)) ms,
          faults := drop (Suc (length ms)) (faults db),
          statements := statements db @ DeleteMessages cid #
                     map (\<lambda>m. InsertMessage cid (role m) (stringify codec m)) ms\<rparr>"
proof -
  let ?db = "db\<lparr>faults := drop 1 (faults db), statements := statements db @ [DeleteMessages cid],
                chat_messages := filter (\<lambda>r. msg_conversation_id r \<noteq> cid) (chat_messages db)\<rparr>"
  have del: "delete_messages cid db = (False, ?db)"
    using assms by (simp add: delete_messages_def d1_run_ok)
  have "no_fault (length ms) ?db"
    using no_fault_drop [OF assms] by (simp add: no_fault_def)
  from insert_all_ok [OF this, of codec cid] del show ?thesis
    by (simp add: save_messages_def drop_Suc tl_drop)
qed

lemma select_conversation_frame:
  "chat_messages (snd (select_conversation stmt cid db)) = chat_messages db"
  "clock (snd (select_conversation stmt cid db)) = clock db"
  by (simp_all add: select_conversation_def d1_run_def split: list.splits bool.splits)

lemma select_conversation_statements:
  "statements (snd (select_conversation stmt cid db)) = statements db @ [stmt]"
  by (simp add: select_conversation_def d1_run_def split: list.splits bool.splits)

lemma wrappedOnFinish_db:
  "chat_messages (snd (snd (wrappedOnFinish codec cid uid onFinish (st, db))))
     = chat_messages (save_messages codec cid (onFinish (messages st)) db)"
  by (simp add: wrappedOnFinish_def Let_def select_conversation_def d1_run_def
        split: list.splits bool.splits d1_result.splits option.splits prod.splits)

lemma wrappedOnFinish_messages:
  "messages (fst (snd (wrappedOnFinish codec cid uid onFinish (st, db)))) = onFinish (messages st)"
  by (simp add: wrappedOnFinish_def Let_def select_conversation_def d1_run_def
        split: list.splits bool.splits d1_result.splits option.splits prod.splits)

lemma wrappedOnFinish_statements:
  "\<exists>rest. statements (snd (snd (wrappedOnFinish codec cid uid onFinish (st, db))))
     = statements (save_messages codec cid (onFinish (messages st)) db) @ rest"
  by (simp add: wrappedOnFinish_def Let_def select_conversation_def d1_run_def
        split: list.splits bool.splits d1_result.splits option.splits prod.splits)

lemma sort_key_const: "\<forall>x \<in> set xs. f x = c \<Longrightarrow> sort_key f xs = xs"
proof (induction xs)
  case Nil
  show ?case by simp
next
  case (Cons x xs)
  then have "sort_key f xs = xs" by simp
  with Cons.prems show ?case by (cases xs) simp_all
qed

lemma d1_run_head:
  "d1_run s db = (head_fault (faults db),
                  db\<lparr>faults := drop 1 (faults db), statements := statements db @ [s]\<rparr>)"
  by (cases "faults db") (simp_all add: d1_run_def head_fault_def)

lemma insert_all_others:
  "filter (\<lambda>r. msg_conversation_id r \<noteq> cid) (chat_messages (snd (insert_all codec cid ms db)))
     = filter (\<lambda>r. msg_conversation_id r \<noteq> cid) (chat_messages db)"
  by (induction ms arbitrary: db)
     (simp_all add: insert_message_def d1_run_head split: prod.splits bool.splits)

lemma save_messages_others:
  "filter (\<lambda>r. msg_conversation_id r \<noteq> cid) (chat_messages (save_messages codec cid ms db))
     = filter (\<lambda>r. msg_conversation_id r \<noteq> cid) (chat_messages db)"
  by (simp add: save_messages_def delete_messages_def d1_run_head insert_all_others
        split: prod.splits bool.splits)

lemma insert_all_fail:
  "faults db = replicate k False @ True # fs \<Longrightarrow> k < length ms \<Longrightarrow>
   insert_all codec cid ms db
     = (True, db\<lparr>chat_messages := chat_messages db @ map (message_row codec cid (clock db)) (take k ms),
                 faults := fs,
                 statements := statements db @
                    map (\<lambda>m. InsertMessage cid (role m) (stringify codec m)) (take (Suc k) ms)\<rparr>)"
proof (induction k arbitrary: ms db)
  case 0
  then show ?case by (cases ms) (simp_all add: insert_message_def d1_run_def)
next
  case (Suc k)
  from Suc.prems obtain m ms' where ms: "ms = m # ms'" by (cases ms) auto
  let ?db = "db\<lparr>chat_messages := chat_messages db @ [message_row codec cid (clock db) m],
                faults := replicate k False @ True # fs,
                statements := statements db @ [InsertMessage cid (role m) (stringify codec m)]\<rparr>"
  have step: "insert_message cid (role m) (stringify codec m) db = (False, ?db)"
    using Suc.prems(1) by (simp add: insert_message_def d1_run_def message_row_def)
  have "faults ?db = replicate k False @ True # fs" and "k < length ms'"
    using Suc.prems(2) ms by simp_all
  from Suc.IH [OF this] step ms show ?case by simp
qed

lemma save_messages_delete_fails:
  "faults db = True # fs \<Longrightarrow>
   save_messages codec cid ms db
     = db\<lparr>faults := fs, statements := statements db @ [DeleteMessages cid]\<rparr>"
  by (simp add: save_messages_def delete_messages_def d1_run_def)

lemma save_messages_insert_fails:
  assumes "faults db = replicate (Suc k) False @ True # fs" and "k < length ms"
  shows "save_messages codec cid ms db
     = db\<lparr>chat_messages := filter (\<lambda>r. msg_conversation_id r \<noteq> cid) (chat_messages db)
                              @ map (message_row codec cid (clock db)) (take k ms),
          faults := fs,
          statements := statements db @ DeleteMessages cid #
                     map (\<lambda>m. InsertMessage cid (role m) (stringify codec m)) (take (Suc k) ms)\<rparr>"
proof -
  let ?db = "db\<lparr>faults := replicate k False @ True # fs,
                statements := statements db @ [DeleteMessages cid],
                chat_messages := filter (\<lambda>r. msg_conversation_id r \<noteq> cid) (chat_messages db)\<rparr>"
  have del: "delete_messages cid db = (False, ?db)"
    using assms(1) by (simp add: delete_messages_def d1_run_def)
  have "faults ?db = replicate k False @ True # fs" by simp
  from insert_all_fail [OF this assms(2), where codec = codec and cid = cid] del show ?thesis
    by (simp add: save_messages_def)
qed

lemma wrappedOnFinish_result:
  "fst (wrappedOnFinish codec cid uid onFinish (st, db))
     = (if 3 \<le> user_turns (onFinish (messages st)) \<and> user_turns (onFinish (messages st)) \<le> 4
           \<and> head_fault (faults (save_messages codec cid (onFinish (messages st)) db))
        then Thrown D1Error else Returned ())"
  by (simp add: wrappedOnFinish_def Let_def user_turns_def select_conversation_def d1_run_head
        split: option.splits)

lemma own_rows:
  "filter (\<lambda>r. msg_conversation_id r = cid) (map (message_row codec cid t) ms)
     = map (message_row codec cid t) ms"
  "filter (\<lambda>r. msg_conversation_id r \<noteq> cid) (map (message_row codec cid t) ms) = []"
  by (induction ms) (simp_all add: message_row_def)

text \<open>
  Claim C1, amended. \<^verbatim>\<open>wrappedOnFinish\<close> runs the \<^verbatim>\<open>DELETE\<close> for the conversation id and
  then one \<^verbatim>\<open>INSERT\<close> per message of the log, in order; the records of other conversations
  are never touched. When none of these statements fails, the records of the conversation
  are afterwards exactly the log, row by row in log order, and a reload reads the log
  back. When the \<^verbatim>\<open>DELETE\<close> fails, the table is as it was. When the \<^verbatim>\<open>DELETE\<close> and the first
  \<open>k\<close> \<^verbatim>\<open>INSERT\<close>s succeed and the next one fails, the records of the conversation are the
  first \<open>k\<close> messages of the log. A failure in the save is logged, not raised. The callback
  itself throws in one case only: the log has three or four user messages and the title
  query, which follows the save outside the \<^verbatim>\<open>try\<close>, fails.
\<close>

theorem turn_end_rewrites_message_records:
  "(case wrappedOnFinish codec cid uid onFinish (st, db) of (r, st', db') \<Rightarrow>
      messages st' = onFinish (messages st)
    \<and> filter (\<lambda>r. msg_conversation_id r \<noteq> cid) (chat_messages db')
        = filter (\<lambda>r. msg_conversation_id r \<noteq> cid) (chat_messages db)
    \<and> (no_fault (Suc (length (messages st'))) db \<longrightarrow>
          filter (\<lambda>r. msg_conversation_id r = cid) (chat_messages db')
            = map (message_row codec cid (clock db)) (messages st')
        \<and> map msg_content (messages_of cid db') = map (stringify codec) (messages st')
        \<and> take (Suc (length (messages st'))) (drop (length (statements db)) (statements db'))
            = DeleteMessages cid
                # map (\<lambda>m. InsertMessage cid (role m) (stringify codec m)) (messages st')
        \<and> r = (if 3 \<le> user_turns (messages st') \<and> user_turns (messages st') \<le> 4
                    \<and> head_fault (drop (Suc (length (messages st'))) (faults db))
                 then Thrown D1Error else Returned ()))
    \<and> (faults db = True # fs \<longrightarrow>
          chat_messages db' = chat_messages db
        \<and> r = (if 3 \<le> user_turns (messages st') \<and> user_turns (messages st') \<le> 4
                    \<and> head_fault fs
                 then Thrown D1Error else Returned ()))
    \<and> (faults db = replicate (Suc k) False @ True # fs \<and> k < length (messages st') \<longrightarrow>
          filter (\<lambda>r. msg_conversation_id r = cid) (chat_messages db')
            = map (message_row codec cid (clock db)) (take k (messages st'))
        \<and> r = (if 3 \<le> user_turns (messages st') \<and> user_turns (messages st') \<le> 4
                    \<and> head_fault fs
                 then Thrown D1Error else Returned ())))"
proof -
  let ?ms = "onFinish (messages st)"
  let ?res = "wrappedOnFinish codec cid uid onFinish (st, db)"
  let ?own = "\<lambda>r. msg_conversation_id r = cid"
  let ?ins = "\<lambda>m. InsertMessage cid (role m) (stringify codec m)"
  have m: "messages (fst (snd ?res)) = ?ms" by (rule wrappedOnFinish_messages)
  have cm: "chat_messages (snd (snd ?res)) = chat_messages (save_messages codec cid ?ms db)"
    by (rule wrappedOnFinish_db)
  have o: "filter (\<lambda>r. msg_conversation_id r \<noteq> cid) (chat_messages (snd (snd ?res)))
             = filter (\<lambda>r. msg_conversation_id r \<noteq> cid) (chat_messages db)"
    by (simp add: cm save_messages_others)
  note r = wrappedOnFinish_result [of codec cid uid onFinish st db]
  have ok: "filter ?own (chat_messages (snd (snd ?res))) = map (message_row codec cid (clock db)) ?ms
        \<and> map msg_content (messages_of cid (snd (snd ?res))) = map (stringify codec) ?ms
        \<and> take (Suc (length ?ms)) (drop (length (statements db)) (statements (snd (snd ?res))))
            = DeleteMessages cid # map ?ins ?ms
        \<and> fst ?res = (if 3 \<le> user_turns ?ms \<and> user_turns ?ms \<le> 4
                    \<and> head_fault (drop (Suc (length ?ms)) (faults db))
                 then Thrown D1Error else Returned ())"
    if nf: "no_fault (Suc (length ?ms)) db"
  proof -
    let ?rows = "map (message_row codec cid (clock db)) ?ms"
    have f1: "filter ?own (chat_messages (snd (snd ?res))) = ?rows"
      by (simp add: cm save_messages_ok [OF nf] own_rows)
    have "sort_key msg_created_at ?rows = ?rows"
      by (rule sort_key_const [where c = "clock db"]) (simp add: message_row_def)
    then have f3: "map msg_content (messages_of cid (snd (snd ?res))) = map (stringify codec) ?ms"
      by (simp add: messages_of_def f1 message_row_def comp_def)
    obtain rest where "statements (snd (snd ?res))
        = statements (save_messages codec cid ?ms db) @ rest"
      using wrappedOnFinish_statements by blast
    then have f4: "take (Suc (length ?ms)) (drop (length (statements db)) (statements (snd (snd ?res))))
        = DeleteMessages cid # map ?ins ?ms"
      by (simp add: save_messages_ok [OF nf])
    have f5: "fst ?res = (if 3 \<le> user_turns ?ms \<and> user_turns ?ms \<le> 4
                    \<and> head_fault (drop (Suc (length ?ms)) (faults db))
                 then Thrown D1Error else Returned ())"
      using r by (simp add: save_messages_ok [OF nf])
    from f1 f3 f4 f5 show ?thesis by simp
  qed
  have df: "chat_messages (snd (snd ?res)) = chat_messages db
        \<and> fst ?res = (if 3 \<le> user_turns ?ms \<and> user_turns ?ms \<le> 4 \<and> head_fault fs
                 then Thrown D1Error else Returned ())"
    if "faults db = True # fs"
    using r by (simp add: cm save_messages_delete_fails [OF that])
  have inf: "filter ?own (chat_messages (snd (snd ?res)))
            = map (message_row codec cid (clock db)) (take k ?ms)
        \<and> fst ?res = (if 3 \<le> user_turns ?ms \<and> user_turns ?ms \<le> 4 \<and> head_fault fs
                 then Thrown D1Error else Returned ())"
    if "faults db = replicate (Suc k) False @ True # fs \<and> k < length ?ms"
  proof -
    from that have a: "faults db = replicate (Suc k) False @ True # fs" and b: "k < length ?ms"
      by simp_all
    show ?thesis using r
      by (simp add: cm save_messages_insert_fails [OF a b] own_rows)
  qed
  from m o ok df inf show ?thesis by (simp add: split_beta)
qed

subsection \<open>Binding and reloading\<close>

lemma messages_of_frame [simp]:
  "messages_of cid (db\<lparr>statements := x\<rparr>) = messages_of cid db"
  "messages_of cid (db\<lparr>faults := y\<rparr>) = messages_of cid db"
  by (simp_all add: messages_of_def)

lemma reload_messages_log:
  "messages (fst (reload_messages codec cid s)) = loaded_log codec cid (snd s)"
  by (cases "faults (snd s)"; cases "messages_of cid (snd s)")
     (auto simp add: reload_messages_def loaded_log_def select_messages_def d1_run_def Let_def
        split: option.splits bool.splits)

lemma reload_messages_frame:
  "stored_conversationId (fst (reload_messages codec cid s)) = stored_conversationId (fst s)"
  "stored_userId (fst (reload_messages codec cid s)) = stored_userId (fst s)"
  "stored_userToken (fst (reload_messages codec cid s)) = stored_userToken (fst s)"
  by (simp_all add: reload_messages_def select_messages_def d1_run_def Let_def
        split: option.splits bool.splits list.splits)

lemma reload_messages_db:
  "snd (reload_messages codec cid s)
     = (snd s)\<lparr>faults := drop 1 (faults (snd s)),
               statements := statements (snd s) @ [SelectMessages cid]\<rparr>"
  by (cases "faults (snd s)")
     (simp_all add: reload_messages_def select_messages_def d1_run_def Let_def
        split: option.splits bool.splits list.splits)

lemma bind_conversation_messages:
  "messages (fst (bind_conversation codec req s))
     = (if truthy (req_conversationId req) \<and> needsReload (the (req_conversationId req)) (fst s)
        then loaded_log codec (the (req_conversationId req)) (snd s)
        else messages (fst s))"
  by (simp add: bind_conversation_def Let_def reload_messages_log)

lemma bind_conversation_id:
  "stored_conversationId (fst (bind_conversation codec req s))
     = (if truthy (req_conversationId req) then req_conversationId req
        else stored_conversationId (fst s))"
  by (simp add: bind_conversation_def Let_def)

lemma bind_conversation_statements:
  "statements (snd (bind_conversation codec req s))
     = statements (snd s)
       @ (if truthy (req_conversationId req) \<and> needsReload (the (req_conversationId req)) (fst s)
          then [SelectMessages (the (req_conversationId req))] else [])"
  by (simp add: bind_conversation_def Let_def reload_messages_db)

lemma bind_conversation_faults:
  "faults (snd (bind_conversation codec req s))
     = (if truthy (req_conversationId req) \<and> needsReload (the (req_conversationId req)) (fst s)
        then drop 1 (faults (snd s)) else faults (snd s))"
  by (simp add: bind_conversation_def Let_def reload_messages_db)

lemma validateToken_db:
  "snd (validateToken db t)
     = db\<lparr>faults := drop 1 (faults db), statements := statements db @ [SelectSessionByToken t]\<rparr>"
  by (cases "faults db") (simp_all add: validateToken_def d1_run_def split: bool.splits)

lemma save_token_frame:
  "messages (fst (snd (save_token req s))) = messages (fst s)"
  "stored_conversationId (fst (snd (save_token req s))) = stored_conversationId (fst s)"
  by (simp_all add: save_token_def Let_def split: prod.splits d1_result.splits option.splits)

lemma save_token_statements:
  "statements (snd (snd (save_token req s)))
     = statements (snd s)
       @ (if truthy (request_token req) then [SelectSessionByToken (the (request_token req))]
          else [])"
proof (cases "truthy (request_token req)")
  case False
  then show ?thesis by (simp add: save_token_def)
next
  case True
  have "snd (snd (save_token req s)) = snd (validateToken (snd s) (the (request_token req)))"
    using True by (simp add: save_token_def Let_def split: prod.splits d1_result.splits option.splits)
  with True show ?thesis by (simp add: validateToken_db)
qed

lemma onRequest_state:
  "snd (onRequest codec req s) = snd (save_token req (bind_conversation codec req s))"
  by (simp add: onRequest_def split: prod.splits result.splits)

lemma onRequest_messages:
  "messages (fst (snd (onRequest codec req s)))
     = (if truthy (req_conversationId req) \<and> needsReload (the (req_conversationId req)) (fst s)
        then loaded_log codec (the (req_conversationId req)) (snd s)
        else messages (fst s))"
  by (simp add: onRequest_state save_token_frame bind_conversation_messages)

lemma onRequest_conversationId:
  "stored_conversationId (fst (snd (onRequest codec req s)))
     = (if truthy (req_conversationId req) then req_conversationId req
        else stored_conversationId (fst s))"
  by (simp add: onRequest_state save_token_frame bind_conversation_id)

lemma onRequest_statements:
  "statements (snd (snd (onRequest codec req s)))
     = statements (snd s)
       @ (if truthy (req_conversationId req) \<and> needsReload (the (req_conversationId req)) (fst s)
          then [SelectMessages (the (req_conversationId req))] else [])
       @ (if truthy (request_token req) then [SelectSessionByToken (the (request_token req))]
          else [])"
  by (simp add: onRequest_state save_token_statements bind_conversation_statements)

text \<open>
  Claim C2, amended. On a request with a conversation id the actor queries the message
  records of that id if and only if \<open>needsReload\<close>: the stored id is unset, or differs, or
  the log is empty. When it does, the log becomes the records of the id in creation order
  if the query succeeds and the rows decode, and is left empty if the query or the decoding
  fails. When it does not, the log is kept. Afterwards the requested id is the stored one.
\<close>

theorem reload_iff_needsReload:
  assumes "req_conversationId req = Some cid" and "cid \<noteq> []"
  shows "(case onRequest codec req (st, db) of (r, st', db') \<Rightarrow>
            (needsReload cid st \<longrightarrow> messages st' = loaded_log codec cid db)
          \<and> (\<not> needsReload cid st \<longrightarrow> messages st' = messages st)
          \<and> (SelectMessages cid \<in> set (drop (length (statements db)) (statements db'))
               \<longleftrightarrow> needsReload cid st)
          \<and> stored_conversationId st' = Some cid)"
  using assms
  by (simp add: split_beta onRequest_messages onRequest_conversationId onRequest_statements)

subsection \<open>A failed load\<close>

lemma loaded_log_fails: "load_fails codec cid db \<Longrightarrow> loaded_log codec cid db = []"
  by (cases "faults db")
     (auto simp add: load_fails_def loaded_log_def head_fault_def split: bool.splits)

lemma loaded_log_ok:
  "\<not> head_fault (faults db) \<Longrightarrow>
   parse_rows codec (map msg_content (messages_of cid db)) = Some ms \<Longrightarrow>
   loaded_log codec cid db = ms"
  by (cases "faults db")
     (auto simp add: loaded_log_def head_fault_def split: bool.splits)

lemma save_token_result:
  "fst (save_token req s)
     = (if truthy (request_token req) \<and> head_fault (faults (snd s))
        then Thrown D1Error else Returned ())"
  by (simp add: save_token_def Let_def validateToken_def d1_run_head split: option.splits)

lemma onRequest_result:
  "fst (onRequest codec req s)
     = (if truthy (request_token req)
            \<and> head_fault (faults (snd (bind_conversation codec req s)))
        then Thrown D1Error
        else Returned (respond req (fst (snd (onRequest codec req s)))))"
proof -
  obtain r st db where e: "save_token req (bind_conversation codec req s) = (r, st, db)"
    by (cases "save_token req (bind_conversation codec req s)") auto
  then have "r = (if truthy (request_token req)
                     \<and> head_fault (faults (snd (bind_conversation codec req s)))
                  then Thrown D1Error else Returned ())"
    using save_token_result [of req "bind_conversation codec req s"] by simp
  with e show ?thesis by (simp add: onRequest_def)
qed

text \<open>
  Claim C6, amended. On a request with a conversation id that needs a reload, when the
  load fails (the query throws, or a row does not decode), the failure is logged and not
  raised: the log is left empty and the id is stored. The request is then answered as a
  request on an empty log, the empty array for \<^verbatim>\<open>/get-messages\<close> and the hand-over to
  \<^verbatim>\<open>super.onRequest\<close> otherwise; the only error it can meet is that of the token query,
  which is outside the \<^verbatim>\<open>try\<close> and runs when the request carries a token. The actor is not
  poisoned: the log is empty, so the next request with a conversation id queries the
  records again, and holds them when its query succeeds and the rows decode.
\<close>

theorem failed_hydration_is_swallowed:
  assumes "req_conversationId req = Some cid" and "cid \<noteq> []" and "needsReload cid st"
    and "load_fails codec cid db"
  shows "(case onRequest codec req (st, db) of (r, st', db') \<Rightarrow>
            r = (if truthy (request_token req) \<and> head_fault (drop 1 (faults db))
                 then Thrown D1Error
                 else Returned (if str_includes (req_pathname req) ''/get-messages''
                                then EmptyMessages else SuperOnRequest))
          \<and> messages st' = []
          \<and> stored_conversationId st' = Some cid
          \<and> (req_conversationId req2 = Some cid2 \<and> cid2 \<noteq> [] \<longrightarrow>
                SelectMessages cid2
                  \<in> set (drop (length (statements db2))
                            (statements (snd (snd (onRequest codec req2 (st', db2))))))
              \<and> messages (fst (snd (onRequest codec req2 (st', db2)))) = loaded_log codec cid2 db2
              \<and> (\<not> head_fault (faults db2)
                    \<and> parse_rows codec (map msg_content (messages_of cid2 db2)) = Some ms
                  \<longrightarrow> messages (fst (snd (onRequest codec req2 (st', db2)))) = ms)))"
proof -
  let ?res = "onRequest codec req (st, db)"
  have m: "messages (fst (snd ?res)) = []"
    using assms by (simp add: onRequest_messages loaded_log_fails)
  have c: "stored_conversationId (fst (snd ?res)) = Some cid"
    using assms by (simp add: onRequest_conversationId)
  have "faults (snd (bind_conversation codec req (st, db))) = drop 1 (faults db)"
    using assms by (simp add: bind_conversation_faults)
  with onRequest_result [of codec req "(st, db)"] m
  have r: "fst ?res = (if truthy (request_token req) \<and> head_fault (drop 1 (faults db))
                 then Thrown D1Error
                 else Returned (if str_includes (req_pathname req) ''/get-messages''
                                then EmptyMessages else SuperOnRequest))"
    by (simp add: respond_def)
  have retry: "SelectMessages cid2
                  \<in> set (drop (length (statements db2))
                            (statements (snd (snd (onRequest codec req2 (fst (snd ?res), db2))))))
              \<and> messages (fst (snd (onRequest codec req2 (fst (snd ?res), db2))))
                  = loaded_log codec cid2 db2
              \<and> (\<not> head_fault (faults db2)
                    \<and> parse_rows codec (map msg_content (messages_of cid2 db2)) = Some ms
                  \<longrightarrow> messages (fst (snd (onRequest codec req2 (fst (snd ?res), db2)))) = ms)"
    if "req_conversationId req2 = Some cid2 \<and> cid2 \<noteq> []"
  proof -
    have n: "needsReload cid2 (fst (snd ?res))" using m by (simp add: needsReload_def)
    with that have l: "messages (fst (snd (onRequest codec req2 (fst (snd ?res), db2))))
                         = loaded_log codec cid2 db2"
      by (simp add: onRequest_messages)
    from n that have s: "SelectMessages cid2
                  \<in> set (drop (length (statements db2))
                            (statements (snd (snd (onRequest codec req2 (fst (snd ?res), db2))))))"
      by (simp add: onRequest_statements)
    from l s show ?thesis by (simp add: loaded_log_ok)
  qed
  from r m c retry show ?thesis by (simp add: split_beta loaded_log_ok)
qed

lemma same_tables_refl [simp]: "same_tables db db"
  by (simp add: same_tables_def)

lemma same_tables_statements [simp]: "same_tables db (db\<lparr>statements := x\<rparr>)"
  by (simp add: same_tables_def)

lemma same_tables_trans: "same_tables a b \<Longrightarrow> same_tables b c \<Longrightarrow> same_tables a c"
  by (simp add: same_tables_def)

lemma same_tables_queries:
  assumes "same_tables db db'"
  shows "token_user db' t = token_user db t"
    and "latest_session db' u = latest_session db u"
    and "conversation_row db' c = conversation_row db c"
    and "faults db' = faults db"
  using assms
  by (simp_all add: same_tables_def token_user_def latest_session_def conversation_row_def
        live_sessions_def)

subsection \<open>The identity of a turn\<close>

lemma d1_run_nofault:
  "faults db = [] \<Longrightarrow> d1_run s db = (False, db\<lparr>statements := statements db @ [s]\<rparr>)"
  by (simp add: d1_run_def)

lemma live_sessions_frame [simp]:
  "live_sessions (db\<lparr>statements := x\<rparr>) = live_sessions db"
  "live_sessions (db\<lparr>faults := y\<rparr>) = live_sessions db"
  "live_sessions (db\<lparr>chat_conversations := z\<rparr>) = live_sessions db"
  by (simp_all add: live_sessions_def)

lemma token_user_frame [simp]:
  "token_user (db\<lparr>statements := x\<rparr>) t = token_user db t"
  "token_user (db\<lparr>faults := y\<rparr>) t = token_user db t"
  by (simp_all add: token_user_def)

lemma latest_session_frame [simp]:
  "latest_session (db\<lparr>statements := x\<rparr>) u = latest_session db u"
  "latest_session (db\<lparr>faults := y\<rparr>) u = latest_session db u"
  by (simp_all add: latest_session_def)

lemma conversation_row_frame [simp]:
  "conversation_row (db\<lparr>statements := x\<rparr>) c = conversation_row db c"
  "conversation_row (db\<lparr>faults := y\<rparr>) c = conversation_row db c"
  by (simp_all add: conversation_row_def)

lemma ensure_conversation_ok:
  "faults (snd s) = [] \<Longrightarrow> fst (ensure_conversation cid uid user s) = Returned user"
  by (simp add: ensure_conversation_def select_conversation_def insert_conversation_def
        notifyConversationUpdate_def d1_run_nofault split: option.splits)

lemma userId_from_token_ok:
  assumes "faults (snd s) = []"
  shows "fst (userId_from_token s) = Returned (token_userId (fst s) (snd s))"
    and "same_tables (snd s) (snd (snd (userId_from_token s)))"
    and "stored_conversationId (fst (snd (userId_from_token s))) = stored_conversationId (fst s)"
  using assms
  by (cases "token_user (snd s) (the (stored_userToken (fst s)))";
      simp add: userId_from_token_def token_userId_def Let_def validateToken_def d1_run_nofault)+

lemma userId_from_conversation_ok:
  assumes "faults (snd s) = []"
  shows "fst (userId_from_conversation cid uid s)
           = (if truthy uid then Returned uid
              else if truthy (map_option conv_user_id (conversation_row (snd s) cid))
                   then Returned (map_option conv_user_id (conversation_row (snd s) cid))
                   else Thrown UnauthorizedNoSession)"
    and "same_tables (snd s) (snd (snd (userId_from_conversation cid uid s)))"
  using assms
  by (simp_all add: userId_from_conversation_def select_conversation_def d1_run_nofault)

lemma session_user_ok:
  assumes "faults (snd s) = []"
  shows "fst (session_user tok uid s)
           = (case latest_session (snd s) uid of
                None \<Rightarrow> Thrown UnauthorizedExpired
              | Some r \<Rightarrow> Returned (session_auth_user r))"
    and "same_tables (snd s) (snd (snd (session_user tok uid s)))"
  using assms
  by (cases "latest_session (snd s) uid";
      simp add: session_user_def select_latest_session_def d1_run_nofault session_auth_user_def)+

lemma and_then_fst:
  "fst (and_then r f)
     = (case fst r of Thrown e \<Rightarrow> Thrown e | Returned x \<Rightarrow> fst (f x (snd r)))"
  by (cases r; cases "fst r") (simp_all add: and_then_def)

lemma resolve_userId_alt:
  "truthy (stored_conversationId st) \<Longrightarrow>
   resolve_userId st db
     = (if truthy (token_userId st db) then token_userId st db
        else if truthy (map_option conv_user_id
                          (conversation_row db (the (stored_conversationId st))))
             then map_option conv_user_id (conversation_row db (the (stored_conversationId st)))
             else None)"
  by (auto simp add: resolve_userId_def token_userId_def Let_def)

lemma onChatMessage_outcome:
  assumes "faults db = []"
  shows "fst (onChatMessage (st, db)) = identity_outcome st db"
proof (cases "truthy (stored_conversationId st)")
  case False
  then show ?thesis by (simp add: onChatMessage_def identity_outcome_def)
next
  case True
  let ?cid = "the (stored_conversationId st)"
  let ?r1 = "userId_from_token (st, db)"
  let ?u1 = "token_userId st db"
  have r1: "fst ?r1 = Returned ?u1" and t1: "same_tables db (snd (snd ?r1))"
    using userId_from_token_ok [of "(st, db)"] assms by simp_all
  let ?r2 = "userId_from_conversation ?cid ?u1 (snd ?r1)"
  have f1: "faults (snd (snd ?r1)) = []" using same_tables_queries(4) [OF t1] assms by simp
  have r2: "fst ?r2 = (if truthy ?u1 then Returned ?u1
              else if truthy (map_option conv_user_id (conversation_row db ?cid))
                   then Returned (map_option conv_user_id (conversation_row db ?cid))
                   else Thrown UnauthorizedNoSession)"
    and t2: "same_tables (snd (snd ?r1)) (snd (snd ?r2))"
    using userId_from_conversation_ok [OF f1, of ?cid ?u1] same_tables_queries(3) [OF t1]
    by simp_all
  have t12: "same_tables db (snd (snd ?r2))" using t1 t2 by (rule same_tables_trans)
  have f2: "faults (snd (snd ?r2)) = []" using same_tables_queries(4) [OF t12] assms by simp
  have unfold: "fst (onChatMessage (st, db))
      = (case fst ?r2 of
           Thrown e \<Rightarrow> Thrown e
         | Returned userId2 \<Rightarrow>
             fst (and_then (session_user (stored_userToken st) (the userId2) (snd ?r2))
                    (\<lambda>user s3. ensure_conversation ?cid (the userId2) user s3)))"
    using True r1 by (simp add: onChatMessage_def Let_def and_then_fst)
  show ?thesis
  proof (cases "resolve_userId st db")
    case None
    with resolve_userId_alt [OF True, of db] have "fst ?r2 = Thrown UnauthorizedNoSession"
      unfolding r2 by (auto split: if_splits)
    with unfold None True show ?thesis by (simp add: identity_outcome_def)
  next
    case (Some uid)
    with resolve_userId_alt [OF True, of db] have "fst ?r2 = Returned (Some uid)"
      unfolding r2 by (auto split: if_splits)
    moreover
    let ?r3 = "session_user (stored_userToken st) uid (snd ?r2)"
    have r3: "fst ?r3 = (case latest_session db uid of
                None \<Rightarrow> Thrown UnauthorizedExpired
              | Some r \<Rightarrow> Returned (session_auth_user r))"
      and t3: "same_tables (snd (snd ?r2)) (snd (snd ?r3))"
      using session_user_ok [OF f2, of "stored_userToken st" uid] same_tables_queries(2) [OF t12]
      by simp_all
    have f3: "faults (snd (snd ?r3)) = []" using same_tables_queries(4) [OF t3] f2 by simp
    have "fst (and_then ?r3 (\<lambda>user s3. ensure_conversation ?cid uid user s3))
            = (case latest_session db uid of
                None \<Rightarrow> Thrown UnauthorizedExpired
              | Some r \<Rightarrow> Returned (session_auth_user r))"
      using f3 by (cases "latest_session db uid") (simp_all add: and_then_fst r3 ensure_conversation_ok)
    ultimately show ?thesis using unfold Some True by (simp add: identity_outcome_def)
  qed
qed

lemma latest_session_owner:
  assumes "latest_session db uid = Some r"
  shows "usr_id (snd r) = uid"
proof -
  let ?xs = "filter (\<lambda>r. sess_user_id (fst r) = uid) (live_sessions db)"
  from assms obtain rs where "rev (sort_key (\<lambda>r. sess_created_at (fst r)) ?xs) = r # rs"
    by (cases "rev (sort_key (\<lambda>r. sess_created_at (fst r)) ?xs)")
       (simp_all add: latest_session_def)
  then have "r \<in> set (rev (sort_key (\<lambda>r. sess_created_at (fst r)) ?xs))"
    by simp
  then have "r \<in> set ?xs" by simp
  then show ?thesis by (auto simp add: live_sessions_def)
qed

lemma token_user_has_session:
  assumes "token_user db t = Some u"
  shows "latest_session db (au_userId u) \<noteq> None"
proof -
  from assms obtain r rs where
    f: "filter (\<lambda>r. sess_token (fst r) = t) (live_sessions db) = r # rs"
    and u: "au_userId u = usr_id (snd r)"
    by (auto simp add: token_user_def split: list.splits)
  from f have "r \<in> set (filter (\<lambda>r. sess_token (fst r) = t) (live_sessions db))" by simp
  then have "r \<in> set (live_sessions db)" by simp
  then have "sess_user_id (fst r) = usr_id (snd r)" by (simp add: live_sessions_def)
  with \<open>r \<in> set (live_sessions db)\<close> u
  have "r \<in> set (filter (\<lambda>r. sess_user_id (fst r) = au_userId u) (live_sessions db))" by simp
  then have "rev (sort_key (\<lambda>r. sess_created_at (fst r))
                (filter (\<lambda>r. sess_user_id (fst r) = au_userId u) (live_sessions db))) \<noteq> []"
    by (metis empty_iff list.set(1) set_rev set_sort)
  then show ?thesis by (simp add: latest_session_def split: list.splits)
qed

lemma identity_outcome_user:
  assumes "identity_outcome st db = Returned user"
  shows "resolve_userId st db = Some (au_userId user)"
  using assms
  by (auto simp add: identity_outcome_def session_auth_user_def
        split: if_splits option.splits dest: latest_session_owner)

lemma reload_messages_tables: "faults (snd s) = [] \<Longrightarrow> same_tables (snd s) (snd (reload_messages codec cid s))"
  by (simp add: reload_messages_db same_tables_def)

lemma bind_conversation_tables:
  "faults (snd s) = [] \<Longrightarrow> same_tables (snd s) (snd (bind_conversation codec req s))"
  by (simp add: bind_conversation_def Let_def reload_messages_db same_tables_def)

lemma bind_conversation_user:
  "stored_userId (fst (bind_conversation codec req s)) = stored_userId (fst s)"
  by (simp add: bind_conversation_def Let_def reload_messages_frame)

lemma save_token_valid:
  assumes "faults (snd s) = []" and "request_token req = Some t" and "t \<noteq> []"
    and "token_user (snd s) t = Some u"
  shows "stored_userId (fst (snd (save_token req s))) = Some (au_userId u)"
    and "same_tables (snd s) (snd (snd (save_token req s)))"
  using assms by (simp_all add: save_token_def Let_def validateToken_def d1_run_nofault)

lemma authenticated_request_succeeds:
  assumes "faults db = []" and "request_token req = Some t" and "t \<noteq> []"
    and "req_conversationId req = Some cid" and "cid \<noteq> []"
    and "token_user db t = Some u" and "au_userId u \<noteq> []"
  shows "\<exists>user. fst (onChatMessage (snd (onRequest codec req (st, db)))) = Returned user
           \<and> au_userId user = au_userId u"
proof -
  let ?s1 = "bind_conversation codec req (st, db)"
  let ?s2 = "snd (save_token req ?s1)"
  have t1: "same_tables db (snd ?s1)" using bind_conversation_tables [of "(st, db)"] assms(1) by simp
  have f1: "faults (snd ?s1) = []" using same_tables_queries(4) [OF t1] assms(1) by simp
  have tu: "token_user (snd ?s1) t = Some u" using same_tables_queries(1) [OF t1] assms(6) by simp
  have uid: "stored_userId (fst ?s2) = Some (au_userId u)"
    and t2: "same_tables (snd ?s1) (snd ?s2)"
    using save_token_valid [OF f1 assms(2,3) tu] by simp_all
  have t12: "same_tables db (snd ?s2)" using t1 t2 by (rule same_tables_trans)
  have f2: "faults (snd ?s2) = []" using same_tables_queries(4) [OF t12] assms(1) by simp
  have cid: "stored_conversationId (fst ?s2) = Some cid"
    using assms(4,5) by (simp add: save_token_frame bind_conversation_id)
  have res: "resolve_userId (fst ?s2) (snd ?s2) = Some (au_userId u)"
    using uid assms(7) by (simp add: resolve_userId_def)
  from token_user_has_session [OF assms(6)] obtain r where
    "latest_session db (au_userId u) = Some r" by auto
  then have ls: "latest_session (snd ?s2) (au_userId u) = Some r"
    using same_tables_queries(2) [OF t12] by simp
  have "fst (onChatMessage ?s2) = identity_outcome (fst ?s2) (snd ?s2)"
    using onChatMessage_outcome [OF f2, of "fst ?s2"] by simp
  also have "\<dots> = Returned (session_auth_user r)"
    using cid res ls assms(5) by (simp add: identity_outcome_def)
  finally have "fst (onChatMessage ?s2) = Returned (session_auth_user r)" .
  moreover have "au_userId (session_auth_user r) = au_userId u"
    using latest_session_owner [OF \<open>latest_session db (au_userId u) = Some r\<close>]
    by (simp add: session_auth_user_def)
  ultimately show ?thesis by (simp add: onRequest_state)
qed

text \<open>
  Claim C3, amended. When the database answers every query, \<^verbatim>\<open>onChatMessage\<close> resolves the
  user id from the stored user id (set from the token of a request), else from the stored
  token, else from the conversation record, in this order. It fails with an unauthorized
  error when none of the three yields a user id, and also when the resolved user has no
  unexpired session; it fails with another error when no conversation id is stored. On
  success the user of the turn is the resolved one. A failure does not disable the actor:
  from any state, a request that carries a conversation id and a token of a live session
  makes the next turn succeed as that token's user.
\<close>

theorem identity_resolution:
  assumes "faults db = []"
  shows "fst (onChatMessage (st, db)) = identity_outcome st db
       \<and> (\<forall>user. fst (onChatMessage (st, db)) = Returned user
             \<longrightarrow> resolve_userId st db = Some (au_userId user))
       \<and> (\<forall>codec req t cid u.
             request_token req = Some t \<and> t \<noteq> [] \<and> req_conversationId req = Some cid
               \<and> cid \<noteq> [] \<and> token_user db t = Some u \<and> au_userId u \<noteq> []
             \<longrightarrow> (\<exists>user. fst (onChatMessage (snd (onRequest codec req (st, db)))) = Returned user
                    \<and> au_userId user = au_userId u))"
  using assms onChatMessage_outcome [OF assms, of st]
    identity_outcome_user [of st db] authenticated_request_succeeds [OF assms, of _ _ _ _ _ st]
  by (intro conjI allI impI) (simp, metis, metis)

subsection \<open>The claims in the scenario\<close>

text \<open>
  Claim C1 as stated fails when a statement fails: here the second \<^verbatim>\<open>INSERT\<close> throws, the
  callback returns, and the records of the conversation hold one message of a log of two.
\<close>

theorem turn_end_partial_save_counterexample:
  "fst (wrappedOnFinish codec0 ''c1'' (Some ''u1'') (\<lambda>ms. ms)
          (chat_two, db0\<lparr>faults := [False, False, True]\<rparr>)) = Returned ()
   \<and> map msg_content (messages_of ''c1'' (snd (snd
         (wrappedOnFinish codec0 ''c1'' (Some ''u1'') (\<lambda>ms. ms)
            (chat_two, db0\<lparr>faults := [False, False, True]\<rparr>))))) = [''user:hello'']
   \<and> map (stringify codec0) (messages (fst (snd
         (wrappedOnFinish codec0 ''c1'' (Some ''u1'') (\<lambda>ms. ms)
            (chat_two, db0\<lparr>faults := [False, False, True]\<rparr>)))))
       = [''user:hello'', ''assistant:hi'']"
  by (simp add: wrappedOnFinish_def save_messages_def delete_messages_def insert_message_def
        d1_run_def chat_two_def chat_init_def db0_def codec0_def m_hello_def m_reply_def
        messages_of_def Let_def)

text \<open>
  The four cases of the amended claim. With no fault, the old record of \<^verbatim>\<open>c1\<close> is replaced
  by the two messages of the log and the record of \<^verbatim>\<open>c2\<close> stays. With a failing \<^verbatim>\<open>DELETE\<close>
  the table is unchanged. With a failing second \<^verbatim>\<open>INSERT\<close> the conversation holds the first
  message. With three user messages and the database down the title query throws.
\<close>

theorem turn_end_rewrites_message_records_witness:
  "no_fault (Suc (length (messages chat_two))) db0
   \<and> map msg_content (messages_of ''c1'' (snd (snd
         (wrappedOnFinish codec0 ''c1'' (Some ''u1'') (\<lambda>ms. ms) (chat_two, db0)))))
       = [''user:hello'', ''assistant:hi'']
   \<and> filter (\<lambda>r. msg_conversation_id r \<noteq> ''c1'') (chat_messages (snd (snd
         (wrappedOnFinish codec0 ''c1'' (Some ''u1'') (\<lambda>ms. ms) (chat_two, db0)))))
       = [\<lparr>msg_conversation_id = ''c2'', msg_role = ''user'', msg_content = ''user:other'',
           msg_created_at = 11\<rparr>]
   \<and> take 3 (statements (snd (snd
         (wrappedOnFinish codec0 ''c1'' (Some ''u1'') (\<lambda>ms. ms) (chat_two, db0)))))
       = [DeleteMessages ''c1'', InsertMessage ''c1'' ''user'' ''user:hello'',
          InsertMessage ''c1'' ''assistant'' ''assistant:hi'']
   \<and> faults (db0\<lparr>faults := [True]\<rparr>) = True # []
   \<and> chat_messages (snd (snd
         (wrappedOnFinish codec0 ''c1'' (Some ''u1'') (\<lambda>ms. ms)
            (chat_two, db0\<lparr>faults := [True]\<rparr>)))) = chat_messages db0
   \<and> fst (wrappedOnFinish codec0 ''c1'' (Some ''u1'') (\<lambda>ms. ms)
            (chat_two, db0\<lparr>faults := [True]\<rparr>)) = Returned ()
   \<and> faults (db0\<lparr>faults := [False, False, True]\<rparr>) = replicate (Suc 1) False @ True # []
   \<and> filter (\<lambda>r. msg_conversation_id r = ''c1'') (chat_messages (snd (snd
         (wrappedOnFinish codec0 ''c1'' (Some ''u1'') (\<lambda>ms. ms)
            (chat_two, db0\<lparr>faults := [False, False, True]\<rparr>)))))
       = [message_row codec0 ''c1'' 50 m_hello]
   \<and> fst (wrappedOnFinish codec0 ''c1'' (Some ''u1'') (\<lambda>ms. ms)
            (chat_two\<lparr>messages := [m_hello, m_hello, m_hello]\<rparr>, db0\<lparr>faults := [True, True]\<rparr>))
       = Thrown D1Error"
proof -
  have h: "no_fault (Suc (length (messages chat_two))) db0"
    by (simp add: no_fault_def db0_def)
  note t1 = turn_end_rewrites_message_records
    [where onFinish = "\<lambda>ms. ms" and st = chat_two and db = db0 and codec = codec0
       and cid = "''c1''" and uid = "Some ''u1''" and fs = "[]" and k = 0]
  note t2 = turn_end_rewrites_message_records
    [where onFinish = "\<lambda>ms. ms" and st = chat_two and db = "db0\<lparr>faults := [True]\<rparr>"
       and codec = codec0 and cid = "''c1''" and uid = "Some ''u1''" and fs = "[]" and k = 0]
  note t3 = turn_end_rewrites_message_records
    [where onFinish = "\<lambda>ms. ms" and st = chat_two and db = "db0\<lparr>faults := [False, False, True]\<rparr>"
       and codec = codec0 and cid = "''c1''" and uid = "Some ''u1''" and fs = "[]" and k = 1]
  note t4 = turn_end_rewrites_message_records
    [where onFinish = "\<lambda>ms. ms" and st = "chat_two\<lparr>messages := [m_hello, m_hello, m_hello]\<rparr>"
       and db = "db0\<lparr>faults := [True, True]\<rparr>"
       and codec = codec0 and cid = "''c1''" and uid = "Some ''u1''" and fs = "[True]" and k = 0]
  have u2: "user_turns (messages chat_two) = 1"
    and u3: "user_turns [m_hello, m_hello, m_hello] = 3"
    by (simp_all add: user_turns_def chat_two_def chat_init_def m_hello_def m_reply_def)
  have l: "length (messages chat_two) = 2" by (simp add: chat_two_def chat_init_def)
  from h t1 have a: "map msg_content (messages_of ''c1'' (snd (snd
         (wrappedOnFinish codec0 ''c1'' (Some ''u1'') (\<lambda>ms. ms) (chat_two, db0)))))
       = map (stringify codec0) (messages chat_two)"
    and b: "filter (\<lambda>r. msg_conversation_id r \<noteq> ''c1'') (chat_messages (snd (snd
         (wrappedOnFinish codec0 ''c1'' (Some ''u1'') (\<lambda>ms. ms) (chat_two, db0)))))
       = filter (\<lambda>r. msg_conversation_id r \<noteq> ''c1'') (chat_messages db0)"
    by (simp_all add: split_beta)
  have c: "take 3 (statements (snd (snd
         (wrappedOnFinish codec0 ''c1'' (Some ''u1'') (\<lambda>ms. ms) (chat_two, db0)))))
       = [DeleteMessages ''c1'', InsertMessage ''c1'' ''user'' ''user:hello'',
          InsertMessage ''c1'' ''assistant'' ''assistant:hi'']"
    by (simp add: wrappedOnFinish_def save_messages_def delete_messages_def insert_message_def
        d1_run_def chat_two_def chat_init_def db0_def codec0_def m_hello_def m_reply_def Let_def)
  from u2 t2 have d: "chat_messages (snd (snd
         (wrappedOnFinish codec0 ''c1'' (Some ''u1'') (\<lambda>ms. ms)
            (chat_two, db0\<lparr>faults := [True]\<rparr>)))) = chat_messages db0"
    and e: "fst (wrappedOnFinish codec0 ''c1'' (Some ''u1'') (\<lambda>ms. ms)
            (chat_two, db0\<lparr>faults := [True]\<rparr>)) = Returned ()"
    by (simp_all add: split_beta)
  from l t3 have f: "filter (\<lambda>r. msg_conversation_id r = ''c1'') (chat_messages (snd (snd
         (wrappedOnFinish codec0 ''c1'' (Some ''u1'') (\<lambda>ms. ms)
            (chat_two, db0\<lparr>faults := [False, False, True]\<rparr>)))))
       = map (message_row codec0 ''c1'' (clock db0)) (take 1 (messages chat_two))"
    by (simp add: split_beta)
  from u3 t4 have g: "fst (wrappedOnFinish codec0 ''c1'' (Some ''u1'') (\<lambda>ms. ms)
            (chat_two\<lparr>messages := [m_hello, m_hello, m_hello]\<rparr>, db0\<lparr>faults := [True, True]\<rparr>))
       = Thrown D1Error"
    by (simp add: split_beta head_fault_def)
  from h a b c d e f g show ?thesis
    by (simp add: chat_two_def chat_init_def codec0_def m_hello_def m_reply_def db0_def)
qed

text \<open>
  Claim C2 as stated fails when the query fails: a fresh actor needs a reload, the
  conversation has a record that decodes, and the log after the request is empty.
\<close>

theorem reload_lost_on_failed_query_counterexample:
  "needsReload ''c1'' (chat_init None None None)
   \<and> parse_rows codec0 (map msg_content (messages_of ''c1'' (db0\<lparr>faults := [True]\<rparr>)))
       = Some [\<lparr>role = ''user'', body = ''old''\<rparr>]
   \<and> messages (fst (snd (onRequest codec0 req_c1
        (chat_init None None None, db0\<lparr>faults := [True]\<rparr>)))) = []"
  by (simp add: needsReload_def chat_init_def onRequest_def bind_conversation_def
        reload_messages_def select_messages_def d1_run_def save_token_def request_token_def
        req_c1_def db0_def codec0_def messages_of_def Let_def)

text \<open>A fresh actor loads the record of \<^verbatim>\<open>c1\<close>; an actor bound to \<^verbatim>\<open>c1\<close> with a log keeps the
  log and sends no statement.\<close>

theorem reload_iff_needsReload_witness:
  "req_conversationId req_c1 = Some ''c1''
   \<and> needsReload ''c1'' (chat_init None None None)
   \<and> messages (fst (snd (onRequest codec0 req_c1 (chat_init None None None, db0))))
       = [\<lparr>role = ''user'', body = ''old''\<rparr>]
   \<and> \<not> needsReload ''c1'' chat_two
   \<and> messages (fst (snd (onRequest codec0 req_c1 (chat_two, db0)))) = [m_hello, m_reply]
   \<and> statements (snd (snd (onRequest codec0 req_c1 (chat_two, db0)))) = []
   \<and> stored_conversationId (fst (snd (onRequest codec0 req_c1 (chat_two, db0)))) = Some ''c1''"
proof -
  have h1: "req_conversationId req_c1 = Some ''c1''" and h2: "''c1'' \<noteq> []"
    by (simp_all add: req_c1_def)
  have n1: "needsReload ''c1'' (chat_init None None None)"
    by (simp add: needsReload_def chat_init_def)
  have n2: "\<not> needsReload ''c1'' chat_two"
    by (simp add: needsReload_def chat_two_def chat_init_def)
  have l: "loaded_log codec0 ''c1'' db0 = [\<lparr>role = ''user'', body = ''old''\<rparr>]"
    by (simp add: loaded_log_def db0_def messages_of_def codec0_def)
  have s: "statements (snd (snd (onRequest codec0 req_c1 (chat_two, db0)))) = []"
    using n2 by (simp add: onRequest_statements req_c1_def request_token_def db0_def)
  note t1 = reload_iff_needsReload
    [OF h1 h2, where codec = codec0 and st = "chat_init None None None" and db = db0]
  note t2 = reload_iff_needsReload [OF h1 h2, where codec = codec0 and st = chat_two and db = db0]
  from t1 t2 h1 n1 n2 l s show ?thesis
    by (simp add: split_beta chat_two_def chat_init_def)
qed

text \<open>
  Claim C6 as stated fails: the load query throws and the request is handed on to
  \<^verbatim>\<open>super.onRequest\<close> as if the conversation were new.
\<close>

theorem hydration_failure_not_surfaced_counterexample:
  "fst (select_messages ''c1'' (db0\<lparr>faults := [True]\<rparr>)) = Threw
   \<and> fst (onRequest codec0 req_c1 (chat_init None None None, db0\<lparr>faults := [True]\<rparr>))
       = Returned SuperOnRequest"
  by (simp add: chat_init_def onRequest_def bind_conversation_def needsReload_def
        reload_messages_def select_messages_def d1_run_def save_token_def request_token_def
        respond_def req_c1_def db0_def Let_def)

text \<open>
  A failing query and a row that does not decode both leave an empty log and a normal
  answer; the next request, with the database back, loads the record. With a token on the
  request and the database down, the token query throws.
\<close>

theorem failed_hydration_is_swallowed_witness:
  "needsReload ''c1'' (chat_init None None None)
   \<and> load_fails codec0 ''c1'' (db0\<lparr>faults := [True]\<rparr>)
   \<and> fst (onRequest codec0 req_c1 (chat_init None None None, db0\<lparr>faults := [True]\<rparr>))
       = Returned SuperOnRequest
   \<and> messages (fst (snd (onRequest codec0 req_c1
        (chat_init None None None, db0\<lparr>faults := [True]\<rparr>)))) = []
   \<and> messages (fst (snd (onRequest codec0 req_c1
        (fst (snd (onRequest codec0 req_c1
           (chat_init None None None, db0\<lparr>faults := [True]\<rparr>))), db0))))
       = [\<lparr>role = ''user'', body = ''old''\<rparr>]
   \<and> load_fails codec0 ''c1'' (db0\<lparr>chat_messages :=
        [\<lparr>msg_conversation_id = ''c1'', msg_role = ''user'', msg_content = ''garbage'',
          msg_created_at = 10\<rparr>]\<rparr>)
   \<and> messages (fst (snd (onRequest codec0 req_c1
        (chat_init None None None, db0\<lparr>chat_messages :=
        [\<lparr>msg_conversation_id = ''c1'', msg_role = ''user'', msg_content = ''garbage'',
          msg_created_at = 10\<rparr>]\<rparr>)))) = []
   \<and> fst (onRequest codec0 (req_c1\<lparr>req_token := Some ''tok1''\<rparr>)
        (chat_init None None None, db0\<lparr>faults := [True, True]\<rparr>)) = Thrown D1Error"
proof -
  let ?bad = "db0\<lparr>chat_messages :=
        [\<lparr>msg_conversation_id = ''c1'', msg_role = ''user'', msg_content = ''garbage'',
          msg_created_at = 10\<rparr>]\<rparr>"
  have h1: "req_conversationId req_c1 = Some ''c1''" and h2: "''c1'' \<noteq> []"
    and h1': "req_conversationId (req_c1\<lparr>req_token := Some ''tok1''\<rparr>) = Some ''c1''"
    by (simp_all add: req_c1_def)
  have n1: "needsReload ''c1'' (chat_init None None None)"
    by (simp add: needsReload_def chat_init_def)
  have f1: "load_fails codec0 ''c1'' (db0\<lparr>faults := [True]\<rparr>)"
    and f3: "load_fails codec0 ''c1'' (db0\<lparr>faults := [True, True]\<rparr>)"
    by (simp_all add: load_fails_def head_fault_def)
  have f2: "load_fails codec0 ''c1'' ?bad"
    by (simp add: load_fails_def messages_of_def codec0_def)
  have p: "\<not> str_includes (req_pathname req_c1) ''/get-messages''"
    and tok: "\<not> truthy (request_token req_c1)"
    and tok': "truthy (request_token (req_c1\<lparr>req_token := Some ''tok1''\<rparr>))"
    by (simp_all add: req_c1_def request_token_def)
  have q: "\<not> head_fault (faults db0)" by (simp add: head_fault_def db0_def)
  have r: "loaded_log codec0 ''c1'' db0 = [\<lparr>role = ''user'', body = ''old''\<rparr>]"
    by (simp add: loaded_log_def db0_def messages_of_def codec0_def)
  note t1 = failed_hydration_is_swallowed
    [OF h1 h2 n1 f1, where ?req2.0 = req_c1 and ?cid2.0 = "''c1''" and ?db2.0 = db0
       and ms = "[\<lparr>role = ''user'', body = ''old''\<rparr>]"]
  note t2 = failed_hydration_is_swallowed [OF h1 h2 n1 f2]
  note t3 = failed_hydration_is_swallowed [OF h1' h2 n1 f3]
  from h1 p tok q r t1
  have a: "fst (onRequest codec0 req_c1 (chat_init None None None, db0\<lparr>faults := [True]\<rparr>))
       = Returned SuperOnRequest"
    and b: "messages (fst (snd (onRequest codec0 req_c1
        (chat_init None None None, db0\<lparr>faults := [True]\<rparr>)))) = []"
    and c: "messages (fst (snd (onRequest codec0 req_c1
        (fst (snd (onRequest codec0 req_c1
           (chat_init None None None, db0\<lparr>faults := [True]\<rparr>))), db0))))
       = [\<lparr>role = ''user'', body = ''old''\<rparr>]"
    by (simp_all add: split_beta)
  from t2 have d: "messages (fst (snd (onRequest codec0 req_c1
        (chat_init None None None, ?bad)))) = []"
    by (simp add: split_beta)
  from tok' t3 have e: "fst (onRequest codec0 (req_c1\<lparr>req_token := Some ''tok1''\<rparr>)
        (chat_init None None None, db0\<lparr>faults := [True, True]\<rparr>)) = Thrown D1Error"
    by (simp add: split_beta head_fault_def)
  from n1 f1 f2 a b c d e show ?thesis by simp
qed

text \<open>
  Claim C3 as stated fails: the conversation record yields the user \<^verbatim>\<open>u1\<close>, who has no
  session, and the turn fails with the second unauthorized error.\<close>

theorem resolved_user_without_session_counterexample:
  "resolve_userId (chat_init (Some ''c1'') None None) (db0\<lparr>session_tbl := []\<rparr>) = Some ''u1''
   \<and> fst (onChatMessage (chat_init (Some ''c1'') None None, db0\<lparr>session_tbl := []\<rparr>))
       = Thrown UnauthorizedExpired"
  by (simp add: resolve_userId_def chat_init_def db0_def conversation_row_def
        onChatMessage_def and_then_def userId_from_token_def userId_from_conversation_def
        select_conversation_def session_user_def select_latest_session_def latest_session_def
        live_sessions_def d1_run_def Let_def)

text \<open>A stored token of a live session resolves the user; with no stored id, no token and no
  conversation record the turn is unauthorized.\<close>

theorem identity_resolution_witness:
  "faults db0 = []
   \<and> fst (onChatMessage (chat_init (Some ''c1'') (Some ''tok1'') None, db0))
       = Returned \<lparr>au_userId = ''u1'', au_email = ''una@example.org'', au_name = ''Una''\<rparr>
   \<and> fst (onChatMessage (chat_init (Some ''c1'') None None, db0\<lparr>chat_conversations := []\<rparr>))
       = Thrown UnauthorizedNoSession"
proof -
  have h: "faults db0 = []" and h': "faults (db0\<lparr>chat_conversations := []\<rparr>) = []"
    by (simp_all add: db0_def)
  have a: "identity_outcome (chat_init (Some ''c1'') (Some ''tok1'') None) db0
             = Returned \<lparr>au_userId = ''u1'', au_email = ''una@example.org'', au_name = ''Una''\<rparr>"
    by (simp add: identity_outcome_def resolve_userId_def chat_init_def db0_def token_user_def
          live_sessions_def latest_session_def session_auth_user_def Let_def)
  have b: "identity_outcome (chat_init (Some ''c1'') None None) (db0\<lparr>chat_conversations := []\<rparr>)
             = Thrown UnauthorizedNoSession"
    by (simp add: identity_outcome_def resolve_userId_def chat_init_def db0_def
          conversation_row_def Let_def)
  from identity_resolution [OF h, where st = "chat_init (Some ''c1'') (Some ''tok1'') None"]
    identity_resolution [OF h', where st = "chat_init (Some ''c1'') None None"]
    h a b
  show ?thesis by simp
qed

end
